theory Spec2Isabelle
  imports Complex_Main "HOL-Library.AList"
begin

section \<open>JavaScript values\<close>

text \<open>
  The server (\<^verbatim>\<open>src/server.ts\<close>) reads request bodies and \<^verbatim>\<open>config.json\<close>, whose
  values are JSON. A number is an IEEE double: a finite double is a rational, and the
  only operations the server applies to a number are the truthiness test and the
  comparison \<^verbatim>\<open><= 0\<close>, which are exact on doubles (the two zeros are both \<open>Fin 0\<close>).
  A string is the list of its bytes in an encoding that extends ASCII: a character below
  128 is the ASCII character, and text beyond ASCII takes characters from 128 on.
  \<open>JNative name\<close> is a built-in value that a plain object inherits under \<open>name\<close> from
  \<^verbatim>\<open>Object.prototype\<close> (a method, or the prototype itself).
\<close>

datatype number = Fin rat | PosInf | NegInf | NaN

datatype jsval =
    JUndefined
  | JNull
  | JBool bool
  | JNum number
  | JStr string
  | JArr "jsval list"
  | JObj "(string \<times> jsval) list"
  | JNative string

text \<open>\<^verbatim>\<open>!!n\<close> for a number: \<^verbatim>\<open>0\<close>, \<^verbatim>\<open>-0\<close> and \<^verbatim>\<open>NaN\<close> are falsy.\<close>

fun number_truthy :: "number \<Rightarrow> bool" where
  "number_truthy (Fin r) = (r \<noteq> 0)"
| "number_truthy PosInf = True"
| "number_truthy NegInf = True"
| "number_truthy NaN = False"

text \<open>\<^verbatim>\<open>n <= 0\<close> for a number: every comparison with \<^verbatim>\<open>NaN\<close> is false.\<close>

fun number_le_zero :: "number \<Rightarrow> bool" where
  "number_le_zero (Fin r) = (r \<le> 0)"
| "number_le_zero PosInf = False"
| "number_le_zero NegInf = True"
| "number_le_zero NaN = False"

text \<open>\<^verbatim>\<open>!!v\<close>: the falsy values are \<^verbatim>\<open>undefined\<close>, \<^verbatim>\<open>null\<close>, \<^verbatim>\<open>false\<close>, the falsy
  numbers and the empty string; every array, object and function is truthy.\<close>

fun truthy :: "jsval \<Rightarrow> bool" where
  "truthy JUndefined = False"
| "truthy JNull = False"
| "truthy (JBool b) = b"
| "truthy (JNum n) = number_truthy n"
| "truthy (JStr s) = (s \<noteq> [])"
| "truthy (JArr xs) = True"
| "truthy (JObj kvs) = True"
| "truthy (JNative name) = True"

text \<open>\<^verbatim>\<open>a ?? b\<close>: \<open>b\<close> replaces \<open>a\<close> only when \<open>a\<close> is \<^verbatim>\<open>undefined\<close> or \<^verbatim>\<open>null\<close>.\<close>

fun nullish :: "jsval \<Rightarrow> bool" where
  "nullish JUndefined = True"
| "nullish JNull = True"
| "nullish v = False"

definition js_coalesce :: "jsval \<Rightarrow> jsval \<Rightarrow> jsval" where
  "js_coalesce a b = (if nullish a then b else a)"

text \<open>\<^verbatim>\<open>a && b\<close> yields \<open>a\<close> when \<open>a\<close> is falsy and \<open>b\<close> otherwise.\<close>

definition js_and :: "jsval \<Rightarrow> jsval \<Rightarrow> jsval" where
  "js_and a b = (if truthy a then b else a)"

text \<open>A field typed \<^verbatim>\<open>string | undefined\<close> is a \<open>string option\<close>; it is truthy when it
  is a non-empty string.\<close>

fun str_truthy :: "string option \<Rightarrow> bool" where
  "str_truthy None = False"
| "str_truthy (Some s) = (s \<noteq> [])"

fun opt_str :: "string option \<Rightarrow> jsval" where
  "opt_str None = JUndefined"
| "opt_str (Some s) = JStr s"

text \<open>A field typed \<^verbatim>\<open>number\<close> that may be missing from the body is a
  \<open>number option\<close>. \<^verbatim>\<open>undefined <= 0\<close> compares \<^verbatim>\<open>NaN\<close> and is false.\<close>

fun num_truthy :: "number option \<Rightarrow> bool" where
  "num_truthy None = False"
| "num_truthy (Some n) = number_truthy n"

fun num_le_zero :: "number option \<Rightarrow> bool" where
  "num_le_zero None = False"
| "num_le_zero (Some n) = number_le_zero n"

fun opt_num :: "number option \<Rightarrow> jsval" where
  "opt_num None = JUndefined"
| "opt_num (Some n) = JNum n"

section \<open>Configuration objects and the startup merge\<close>

text \<open>
  A chain or token configuration is a JSON object: an association list of its own
  properties in property order. Reading \<^verbatim>\<open>obj[key]\<close> yields the own property when
  there is one, else what the object inherits from \<^verbatim>\<open>Object.prototype\<close> under that
  name, else \<^verbatim>\<open>undefined\<close>; writing a property keeps its position or appends it
  (\<open>AList.update\<close>). \<^verbatim>\<open>Object.keys\<close> lists the own properties only.
\<close>

type_synonym ChainType = "(string \<times> jsval) list"

definition object_prototype_keys :: "string list" where
  "object_prototype_keys =
     [''constructor'', ''toString'', ''toLocaleString'', ''valueOf'', ''hasOwnProperty'',
      ''isPrototypeOf'', ''propertyIsEnumerable'', ''__proto__'', ''__defineGetter__'',
      ''__defineSetter__'', ''__lookupGetter__'', ''__lookupSetter__'']"

definition js_get :: "ChainType \<Rightarrow> string \<Rightarrow> jsval" where
  "js_get obj key =
     (case map_of obj key of
        Some v \<Rightarrow> v
      | None \<Rightarrow> if key \<in> set object_prototype_keys then JNative key else JUndefined)"

text \<open>\<^verbatim>\<open>getChainByID\<close> (lines 75-83): the loop overwrites \<^verbatim>\<open>reply\<close> at every chain
  whose \<^verbatim>\<open>ID\<close> equals \<^verbatim>\<open>id\<close>, so the last match is returned. Both sides are strings
  (\<^verbatim>\<open>ChainType.ID\<close> and the parameter \<^verbatim>\<open>id: string\<close>), on which \<^verbatim>\<open>==\<close> is equality.\<close>

definition getChainByID :: "ChainType list \<Rightarrow> string \<Rightarrow> ChainType option" where
  "getChainByID evmchains ident =
     fold (\<lambda>c reply. if js_get c ''ID'' = JStr ident then Some c else reply)
       evmchains None"

definition separateConfigFields :: "string list" where
  "separateConfigFields = [''COUPON_REQUIRED'', ''MAINNET_BALANCE_CHECK_ENABLED'']"

text \<open>\<^verbatim>\<open>populateConfig\<close> (lines 88-96). One round of the \<^verbatim>\<open>forEach\<close> over
  \<^verbatim>\<open>Object.keys(parent || {})\<close>: the key is copied when it is not exempt and
  \<^verbatim>\<open>!child[key]\<close> holds, that is, when what the child reads under the key (own or
  inherited) is falsy.\<close>

definition populate_key :: "ChainType \<Rightarrow> string \<Rightarrow> ChainType \<Rightarrow> ChainType" where
  "populate_key parent key child =
     (if key \<notin> set separateConfigFields \<and> \<not> truthy (js_get child key)
      then AList.update key (js_get parent key) child
      else child)"

definition populateConfig :: "ChainType \<Rightarrow> ChainType option \<Rightarrow> ChainType" where
  "populateConfig child parent =
     (case parent of
        None \<Rightarrow> child
      | Some p \<Rightarrow> fold (populate_key p) (map fst p) child)"

text \<open>The body of \<^verbatim>\<open>erc20tokens.forEach\<close> (lines 109-114) up to the token that is
  stored back and registered: a token with a truthy \<^verbatim>\<open>HOSTID\<close> is merged with the chain
  of that identifier. \<^verbatim>\<open>HOSTID\<close> is a string when present.\<close>

definition merge_token :: "ChainType list \<Rightarrow> ChainType \<Rightarrow> ChainType" where
  "merge_token evmchains token =
     (case js_get token ''HOSTID'' of
        JStr h \<Rightarrow> if h \<noteq> [] then populateConfig token (getChainByID evmchains h) else token
      | _ \<Rightarrow> token)"

section \<open>The key of the per-identity rate limiter\<close>

text \<open>
  \<^verbatim>\<open>String.prototype.toUpperCase\<close>. On text that is pure ASCII the letters \<^verbatim>\<open>a\<close> to \<^verbatim>\<open>z\<close>
  (codes 97 to 122) move to \<^verbatim>\<open>A\<close> to \<^verbatim>\<open>Z\<close> and every other character stays. On text
  with a character beyond ASCII the result is given by the Unicode case mapping of the
  JavaScript runtime, which is no part of the repository: it is the parameter
  \<open>unicode_upper\<close>, from the whole string to its upper-cased string (the mapping can
  change the length, as for U+00DF).
\<close>

definition upper_char :: "char \<Rightarrow> char" where
  "upper_char c =
     (let n = (of_char c :: nat) in if 97 \<le> n \<and> n \<le> 122 then char_of (n - 32) else c)"

definition ascii_text :: "string \<Rightarrow> bool" where
  "ascii_text s = list_all (\<lambda>c. (of_char c :: nat) < 128) s"

definition toUpperCase :: "(string \<Rightarrow> string) \<Rightarrow> string \<Rightarrow> string" where
  "toUpperCase unicode_upper s = (if ascii_text s then map upper_char s else unicode_upper s)"

text \<open>The key generator of the third limiter (lines 59-65), applied to
  \<^verbatim>\<open>req.body?.address\<close>. \<open>None\<close> is the \<^verbatim>\<open>undefined\<close> of the fall-through.\<close>

fun keyGenerator :: "(string \<Rightarrow> string) \<Rightarrow> jsval \<Rightarrow> string option" where
  "keyGenerator unicode_upper (JStr addr) =
     (if addr \<noteq> [] then Some (toUpperCase unicode_upper addr) else None)"
| "keyGenerator unicode_upper v = None"

text \<open>Modelled from the spec: the key that the \<^verbatim>\<open>RateLimiter\<close> of \<^verbatim>\<open>./middlewares\<close>
  counts a request under, which section 4.2 gives for the per-identity limiter as the
  key derived from the address, "falling back to the per-resource key" when no key is
  derived.\<close>

definition limiter_key :: "(jsval \<Rightarrow> string option) \<Rightarrow> string \<Rightarrow> jsval \<Rightarrow> string" where
  "limiter_key generator resource_key addr =
     (case generator addr of None \<Rightarrow> resource_key | Some k \<Rightarrow> k)"

section \<open>The collaborators\<close>

text \<open>
  The chain collaborator (\<^verbatim>\<open>./vms/evm\<close>) reports a transfer through the callback it is
  given, with a \<^verbatim>\<open>SendTokenResponse\<close>: \<^verbatim>\<open>{status, message, txHash?}\<close>.
\<close>

record SendTokenResponse =
  status :: int
  message :: string
  txHash :: "string option"

text \<open>What one call of \<^verbatim>\<open>instance.sendToken\<close> does with its callback: it invokes it with
  a response, it throws before returning, or it never invokes it.\<close>

datatype send_outcome = Reports SendTokenResponse | Throws string | Silent

record ERC20Contract =
  contract_config :: ChainType

text \<open>The part of an \<^verbatim>\<open>EVM\<close> instance the server uses: the map \<^verbatim>\<open>contracts\<close> of the
  registered tokens, \<^verbatim>\<open>sendToken(address, erc20, amount, cb)\<close> and \<^verbatim>\<open>getBalance(erc20)\<close>,
  a \<^verbatim>\<open>bigint\<close> or \<^verbatim>\<open>undefined\<close>.\<close>

record EVM =
  contracts :: "string \<rightharpoonup> ERC20Contract"
  sendToken :: "jsval \<Rightarrow> string option \<Rightarrow> jsval \<Rightarrow> send_outcome"
  getBalance :: "string option \<Rightarrow> int option"

record EVMInstanceAndConfig =
  config :: ChainType
  "instance" :: EVM

text \<open>Modelled from the spec: the enumeration \<^verbatim>\<open>PIPELINE_CHECKS\<close> of
  \<^verbatim>\<open>./utils/pipelineChecks\<close>, which section 3 gives as
  \<^verbatim>\<open>NONE | COUPON | MAINNET_BALANCE\<close>.\<close>

datatype PIPELINE_CHECKS = NONE | COUPON | MAINNET_BALANCE

text \<open>Modelled from the spec: the type \<^verbatim>\<open>PipelineCheckValidity\<close> of
  \<^verbatim>\<open>./utils/pipelineChecks\<close>, with the fields of section 3. The handler creates it as
  \<^verbatim>\<open>{isValid: false, dripAmount}\<close>, every other field \<^verbatim>\<open>undefined\<close>.\<close>

record PipelineCheckValidity =
  isValid :: bool
  dripAmount :: jsval
  checkPassedType :: "PIPELINE_CHECKS option"
  errorMessage :: "string option"
  mainnetBalance :: jsval

text \<open>
  What the handlers read besides the request: the table \<^verbatim>\<open>evms\<close>, the constants of
  \<^verbatim>\<open>config.json\<close>, \<^verbatim>\<open>process.env.NEO_COUPON_ID\<close>, and the three functions of
  \<^verbatim>\<open>./utils/pipelineChecks\<close>, which are parameters here. The two checks update the
  \<^verbatim>\<open>pipelineValidity\<close> they are given; the model returns the updated record.
  \<^item> \<open>checkCouponPipeline pv faucetConfigId coupon\<close>
  \<^item> \<open>checkMainnetBalancePipeline pv rpc address\<close>
  \<^item> \<open>pipelineFailureMessage rpc couponCheckEnabled\<close>
\<close>

record server =
  evms :: "string \<rightharpoonup> EVMInstanceAndConfig"
  couponConfig_IS_ENABLED :: jsval
  MAINNET_BALANCE_CHECK_RPC :: jsval
  NEO_COUPON_ID :: "string option"
  checkCouponPipeline ::
    "PipelineCheckValidity \<Rightarrow> jsval \<Rightarrow> string option \<Rightarrow> PipelineCheckValidity"
  checkMainnetBalancePipeline ::
    "PipelineCheckValidity \<Rightarrow> jsval \<Rightarrow> jsval \<Rightarrow> PipelineCheckValidity"
  pipelineFailureMessage :: "jsval \<Rightarrow> jsval \<Rightarrow> string"

text \<open>The fields the handlers read from \<^verbatim>\<open>req.body\<close>, with the types of their
  declarations; \<open>None\<close> and \<open>JUndefined\<close> are a missing field.\<close>

record body =
  body_address :: jsval
  body_chain :: "string option"
  body_erc20 :: "string option"
  body_couponId :: "string option"
  body_coupon :: "string option"
  body_amount :: "number option"
  body_kiteAmount :: "number option"
  body_erc20Amount :: "number option"

text \<open>What a handler does that can be observed from outside, in order.\<close>

datatype event =
    CheckCoupon jsval "string option"
  | CheckMainnet jsval
  | SendToken jsval "string option" jsval
  | ReclaimCoupon "string option" jsval
  | Respond int jsval

fun is_mainnet_check :: "event \<Rightarrow> bool" where
  "is_mainnet_check (CheckMainnet a) = True"
| "is_mainnet_check ev = False"

fun is_dispatch :: "event \<Rightarrow> bool" where
  "is_dispatch (SendToken a t n) = True"
| "is_dispatch ev = False"

fun is_reclaim :: "event \<Rightarrow> bool" where
  "is_reclaim (ReclaimCoupon c n) = True"
| "is_reclaim ev = False"

fun is_response :: "event \<Rightarrow> bool" where
  "is_response (Respond code payload) = True"
| "is_response ev = False"

definition message_only :: "string \<Rightarrow> jsval" where
  "message_only m = JObj [(''message'', JStr m)]"

section \<open>Resolving the chain and the token\<close>

text \<open>\<^verbatim>\<open>evms.get(chain)\<close> and \<^verbatim>\<open>evm?.instance?.contracts?.get(erc20 ?? "")\<close>.\<close>

definition evms_get :: "server \<Rightarrow> string option \<Rightarrow> EVMInstanceAndConfig option" where
  "evms_get srv c = (case c of None \<Rightarrow> None | Some k \<Rightarrow> evms srv k)"

definition contracts_get ::
  "EVMInstanceAndConfig option \<Rightarrow> string option \<Rightarrow> ERC20Contract option" where
  "contracts_get evm t =
     (case evm of
        None \<Rightarrow> None
      | Some e \<Rightarrow> contracts (instance e) (case t of None \<Rightarrow> [] | Some k \<Rightarrow> k))"

text \<open>The test of "validate parameters":
  \<^verbatim>\<open>evm === undefined || (erc20 && erc20Instance === undefined)\<close>.\<close>

definition invalid_parameters ::
  "EVMInstanceAndConfig option \<Rightarrow> string option \<Rightarrow> ERC20Contract option \<Rightarrow> bool" where
  "invalid_parameters evm t erc20Instance =
     (evm = None \<or> (str_truthy t \<and> erc20Instance = None))"

text \<open>The \<^verbatim>\<open>{message, txHash}\<close> that the single-transfer handlers send.\<close>

definition forward_response :: "SendTokenResponse \<Rightarrow> event" where
  "forward_response data =
     Respond (status data)
       (JObj [(''message'', JStr (message data)), (''txHash'', opt_str (txHash data))])"

section \<open>POST /sendToken\<close>

text \<open>Lines 138-151. \<^verbatim>\<open>erc20Instance?.config.X\<close> is \<^verbatim>\<open>undefined\<close> without an
  instance; the conditional \<^verbatim>\<open>erc20Instance ? a : b\<close> chooses by its presence.\<close>

definition token_field :: "ERC20Contract option \<Rightarrow> string \<Rightarrow> jsval" where
  "token_field erc20Instance key =
     (case erc20Instance of None \<Rightarrow> JUndefined | Some t \<Rightarrow> js_get (contract_config t) key)"

definition resolved_field ::
  "EVMInstanceAndConfig \<Rightarrow> ERC20Contract option \<Rightarrow> string \<Rightarrow> jsval" where
  "resolved_field e erc20Instance key =
     (case erc20Instance of
        None \<Rightarrow> js_get (config e) key
      | Some t \<Rightarrow> js_get (contract_config t) key)"

definition faucetConfigId :: "EVMInstanceAndConfig \<Rightarrow> ERC20Contract option \<Rightarrow> jsval" where
  "faucetConfigId e erc20Instance =
     js_coalesce (token_field erc20Instance ''ID'') (js_get (config e) ''ID'')"

definition configured_dripAmount ::
  "EVMInstanceAndConfig \<Rightarrow> ERC20Contract option \<Rightarrow> jsval" where
  "configured_dripAmount e erc20Instance =
     js_coalesce (token_field erc20Instance ''DRIP_AMOUNT'') (js_get (config e) ''DRIP_AMOUNT'')"

definition mainnetCheckEnabled :: "EVMInstanceAndConfig \<Rightarrow> ERC20Contract option \<Rightarrow> jsval" where
  "mainnetCheckEnabled e erc20Instance =
     js_coalesce (resolved_field e erc20Instance ''MAINNET_BALANCE_CHECK_ENABLED'') (JBool False)"

definition couponCheckEnabled ::
  "server \<Rightarrow> EVMInstanceAndConfig \<Rightarrow> ERC20Contract option \<Rightarrow> jsval" where
  "couponCheckEnabled srv e erc20Instance =
     js_and (couponConfig_IS_ENABLED srv)
       (js_coalesce (resolved_field e erc20Instance ''COUPON_REQUIRED'') (JBool False))"

text \<open>Line 154: the coupon check runs when the pipeline is not yet valid and the coupon
  gate is enabled.\<close>

definition coupon_stage ::
  "server \<Rightarrow> body \<Rightarrow> jsval \<Rightarrow> jsval \<Rightarrow> PipelineCheckValidity
     \<Rightarrow> event list \<times> PipelineCheckValidity" where
  "coupon_stage srv b fid couponEnabled pv =
     (if \<not> isValid pv \<and> truthy couponEnabled
      then ([CheckCoupon fid (body_couponId b)],
            checkCouponPipeline srv pv fid (body_couponId b))
      else ([], pv))"

text \<open>Line 157: the mainnet check runs when the pipeline is not yet valid, \<^verbatim>\<open>!coupon\<close>
  holds and the mainnet gate is enabled.\<close>

definition mainnet_stage ::
  "server \<Rightarrow> body \<Rightarrow> jsval \<Rightarrow> PipelineCheckValidity
     \<Rightarrow> event list \<times> PipelineCheckValidity" where
  "mainnet_stage srv b mainnetEnabled pv =
     (if \<not> isValid pv \<and> \<not> str_truthy (body_couponId b) \<and> truthy mainnetEnabled
      then ([CheckMainnet (body_address b)],
            checkMainnetBalancePipeline srv pv (MAINNET_BALANCE_CHECK_RPC srv) (body_address b))
      else ([], pv))"

text \<open>Lines 153-157: \<^verbatim>\<open>{isValid: false, dripAmount}\<close>, then the checks that ran and the
  \<^verbatim>\<open>pipelineValidity\<close> they leave.\<close>

definition initial_validity ::
  "EVMInstanceAndConfig \<Rightarrow> ERC20Contract option \<Rightarrow> PipelineCheckValidity" where
  "initial_validity e erc20Instance =
     \<lparr>isValid = False, dripAmount = configured_dripAmount e erc20Instance,
      checkPassedType = None, errorMessage = None, mainnetBalance = JUndefined\<rparr>"

definition sendToken_pipeline ::
  "server \<Rightarrow> body \<Rightarrow> EVMInstanceAndConfig \<Rightarrow> ERC20Contract option
     \<Rightarrow> event list \<times> PipelineCheckValidity" where
  "sendToken_pipeline srv b e erc20Instance =
     (let s1 = coupon_stage srv b (faucetConfigId e erc20Instance)
                 (couponCheckEnabled srv e erc20Instance) (initial_validity e erc20Instance);
          s2 = mainnet_stage srv b (mainnetCheckEnabled e erc20Instance) (snd s1)
      in (fst s1 @ fst s2, snd s2))"

text \<open>Lines 159-162: a gate is enabled and the pipeline is not valid.\<close>

definition pipeline_failed ::
  "server \<Rightarrow> EVMInstanceAndConfig \<Rightarrow> ERC20Contract option \<Rightarrow> PipelineCheckValidity \<Rightarrow> bool" where
  "pipeline_failed srv e erc20Instance pv =
     ((truthy (mainnetCheckEnabled e erc20Instance)
        \<or> truthy (couponCheckEnabled srv e erc20Instance))
      \<and> \<not> isValid pv)"

text \<open>Line 164: \<^verbatim>\<open>errorMessage + pipelineFailureMessage(...)\<close>; an \<^verbatim>\<open>undefined\<close> message
  concatenates as the text \<^verbatim>\<open>undefined\<close>.\<close>

definition pipeline_rejection ::
  "server \<Rightarrow> EVMInstanceAndConfig \<Rightarrow> ERC20Contract option \<Rightarrow> PipelineCheckValidity \<Rightarrow> event" where
  "pipeline_rejection srv e erc20Instance pv =
     Respond 400
       (message_only
          ((case errorMessage pv of None \<Rightarrow> ''undefined'' | Some m \<Rightarrow> m)
           @ pipelineFailureMessage srv (MAINNET_BALANCE_CHECK_RPC srv)
               (couponCheckEnabled srv e erc20Instance)))"

text \<open>Lines 184-190, the callback given to \<^verbatim>\<open>sendToken\<close>: the reclaim when
  \<^verbatim>\<open>checkPassedType === COUPON && coupon && txHash === undefined\<close>, then the response.\<close>

definition sendToken_callback ::
  "PipelineCheckValidity \<Rightarrow> string option \<Rightarrow> SendTokenResponse \<Rightarrow> event list" where
  "sendToken_callback pv coupon data =
     (if checkPassedType pv = Some COUPON \<and> str_truthy coupon \<and> txHash data = None
      then [ReclaimCoupon coupon (dripAmount pv)]
      else [])
     @ [forward_response data]"

text \<open>Line 183: the transfer is requested with \<^verbatim>\<open>pipelineValidity.dripAmount\<close>; the
  handler acts again only if the collaborator invokes the callback.\<close>

definition sendToken_dispatch ::
  "EVMInstanceAndConfig \<Rightarrow> body \<Rightarrow> PipelineCheckValidity \<Rightarrow> event list" where
  "sendToken_dispatch e b pv =
     SendToken (body_address b) (body_erc20 b) (dripAmount pv)
     # (case sendToken (instance e) (body_address b) (body_erc20 b) (dripAmount pv) of
          Reports data \<Rightarrow> sendToken_callback pv (body_couponId b) data
        | Throws m \<Rightarrow> []
        | Silent \<Rightarrow> [])"

text \<open>The handler of \<^verbatim>\<open>/sendToken\<close> (lines 121-192), after the captcha middleware. The
  \<^verbatim>\<open>DEBUG\<close> log line writes to the console only and is left out.\<close>

definition sendToken_route :: "server \<Rightarrow> body \<Rightarrow> event list" where
  "sendToken_route srv b =
     (let evm = evms_get srv (body_chain b);
          erc20Instance = contracts_get evm (body_erc20 b)
      in if invalid_parameters evm (body_erc20 b) erc20Instance
         then [Respond 400 (message_only ''Invalid parameters passed!'')]
         else (case evm of
                 None \<Rightarrow> [Respond 400 (message_only ''Invalid parameters passed!'')]
               | Some e \<Rightarrow>
                   (let s = sendToken_pipeline srv b e erc20Instance
                    in if pipeline_failed srv e erc20Instance (snd s)
                       then fst s @ [pipeline_rejection srv e erc20Instance (snd s)]
                       else fst s @ sendToken_dispatch e b (snd s))))"

section \<open>POST /claimToken\<close>

text \<open>Lines 195-226. \<^verbatim>\<open>!dripAmount || dripAmount <= 0\<close>, then
  \<^verbatim>\<open>coupon !== process.env.NEO_COUPON_ID\<close> (strict inequality of two values that are a
  string or \<^verbatim>\<open>undefined\<close>), then the parameters.\<close>

definition invalid_amount :: "number option \<Rightarrow> bool" where
  "invalid_amount a = (\<not> num_truthy a \<or> num_le_zero a)"

definition claimToken_route :: "server \<Rightarrow> body \<Rightarrow> event list" where
  "claimToken_route srv b =
     (if invalid_amount (body_amount b)
      then [Respond 400 (message_only ''Invalid amount passed!'')]
      else if body_coupon b \<noteq> NEO_COUPON_ID srv
      then [Respond 400 (message_only ''Invalid coupon passed!'')]
      else (let evm = evms_get srv (body_chain b);
                erc20Instance = contracts_get evm (body_erc20 b)
            in if invalid_parameters evm (body_erc20 b) erc20Instance
               then [Respond 400 (message_only ''Invalid parameters passed!'')]
               else (case evm of
                       None \<Rightarrow> [Respond 400 (message_only ''Invalid parameters passed!'')]
                     | Some e \<Rightarrow>
                         SendToken (body_address b) (body_erc20 b) (opt_num (body_amount b))
                         # (case sendToken (instance e) (body_address b) (body_erc20 b)
                                   (opt_num (body_amount b)) of
                              Reports data \<Rightarrow> [forward_response data]
                            | Throws m \<Rightarrow> []
                            | Silent \<Rightarrow> []))))"

section \<open>POST /batchClaimToken\<close>

text \<open>Lines 279-288, the \<^verbatim>\<open>then\<close> branch on the two results.\<close>

definition batch_then :: "SendTokenResponse \<Rightarrow> SendTokenResponse \<Rightarrow> event" where
  "batch_then nativeTransfer erc20Transfer =
     (if status nativeTransfer = 200 \<and> status erc20Transfer = 200
      then Respond 200
             (JObj [(''message'', JStr ''Tokens sent successfully''),
                    (''data'', JObj [(''nativeTxHash'', opt_str (txHash nativeTransfer)),
                                     (''erc20TxHash'', opt_str (txHash erc20Transfer))])])
      else if status nativeTransfer = 200
      then Respond 400
             (JObj [(''message'', JStr ''Native token sent successfully''),
                    (''data'', JObj [(''nativeTxHash'', opt_str (txHash nativeTransfer)),
                                     (''erc20TxHash'', JNull)])])
      else if status erc20Transfer = 200
      then Respond 400
             (JObj [(''message'', JStr ''ERC20 token sent successfully''),
                    (''data'', JObj [(''nativeTxHash'', JNull),
                                     (''erc20TxHash'', opt_str (txHash erc20Transfer))])])
      else Respond 400 (message_only ''Failed to send tokens''))"

text \<open>
  \<^verbatim>\<open>Promise.all([nativeTransferPromise, erc20TransferPromise])\<close> (lines 257-291). A leg's
  promise resolves with the response its callback receives and rejects with what
  \<^verbatim>\<open>sendToken\<close> throws. With both resolved the \<^verbatim>\<open>then\<close> branch answers; a rejection
  goes to \<^verbatim>\<open>catch\<close>, the native one first; otherwise a leg that never reports leaves the
  request unanswered.
\<close>

definition batch_settle :: "send_outcome \<Rightarrow> send_outcome \<Rightarrow> event list" where
  "batch_settle native secondary =
     (case native of
        Throws m \<Rightarrow> [Respond 400 (message_only m)]
      | Reports n \<Rightarrow>
          (case secondary of
             Reports x \<Rightarrow> [batch_then n x]
           | Throws m \<Rightarrow> [Respond 400 (message_only m)]
           | Silent \<Rightarrow> [])
      | Silent \<Rightarrow>
          (case secondary of
             Throws m \<Rightarrow> [Respond 400 (message_only m)]
           | Reports x \<Rightarrow> []
           | Silent \<Rightarrow> []))"

text \<open>Lines 231 and 233: \<^verbatim>\<open>chain ?? "KITE"\<close> and \<^verbatim>\<open>erc20 ?? "USDT"\<close>.\<close>

definition batch_chain :: "body \<Rightarrow> string" where
  "batch_chain b = (case body_chain b of None \<Rightarrow> ''KITE'' | Some c \<Rightarrow> c)"

definition batch_erc20 :: "body \<Rightarrow> string" where
  "batch_erc20 b = (case body_erc20 b of None \<Rightarrow> ''USDT'' | Some t \<Rightarrow> t)"

text \<open>Lines 257-277: both transfers are requested, the native one first, each with its
  own amount.\<close>

definition batch_dispatch :: "EVMInstanceAndConfig \<Rightarrow> body \<Rightarrow> event list" where
  "batch_dispatch e b =
     [SendToken (body_address b) None (opt_num (body_kiteAmount b)),
      SendToken (body_address b) (Some (batch_erc20 b)) (opt_num (body_erc20Amount b))]
     @ batch_settle
         (sendToken (instance e) (body_address b) None (opt_num (body_kiteAmount b)))
         (sendToken (instance e) (body_address b) (Some (batch_erc20 b))
            (opt_num (body_erc20Amount b)))"

text \<open>The handler of \<^verbatim>\<open>/batchClaimToken\<close> (lines 229-292).\<close>

definition batchClaimToken_route :: "server \<Rightarrow> body \<Rightarrow> event list" where
  "batchClaimToken_route srv b =
     (if invalid_amount (body_kiteAmount b)
      then [Respond 400 (message_only ''Invalid amount passed!'')]
      else if body_coupon b \<noteq> NEO_COUPON_ID srv
      then [Respond 400 (message_only ''Invalid coupon passed!'')]
      else (let evm = evms_get srv (Some (batch_chain b));
                erc20Instance = contracts_get evm (Some (batch_erc20 b))
            in if invalid_parameters evm (Some (batch_erc20 b)) erc20Instance
               then [Respond 400 (message_only ''Invalid parameters passed!'')]
               else (case evm of
                       None \<Rightarrow> [Respond 400 (message_only ''Invalid parameters passed!'')]
                     | Some e \<Rightarrow> batch_dispatch e b)))"

section \<open>GET /getBalance\<close>

text \<open>\<^verbatim>\<open>BigInt.prototype.toString()\<close>: the decimal digits, most significant first, after
  a minus sign for a negative value.\<close>

definition digit_char :: "nat \<Rightarrow> char" where
  "digit_char d = char_of (48 + d)"

fun nat_digits :: "nat \<Rightarrow> string" where
  "nat_digits n =
     (if n < 10 then [digit_char n] else nat_digits (n div 10) @ [digit_char (n mod 10)])"

declare nat_digits.simps [simp del]

definition bigint_toString :: "int \<Rightarrow> string" where
  "bigint_toString i = (if i < 0 then CHR ''-'' # nat_digits (nat (- i)) else nat_digits (nat i))"

text \<open>A \<^verbatim>\<open>bigint\<close> is truthy unless it is \<^verbatim>\<open>0n\<close>.\<close>

fun bigint_truthy :: "int option \<Rightarrow> bool" where
  "bigint_truthy None = False"
| "bigint_truthy (Some i) = (i \<noteq> 0)"

text \<open>The handler of \<^verbatim>\<open>/getBalance\<close> (lines 311-328), on \<^verbatim>\<open>req.query?.chain\<close> and
  \<^verbatim>\<open>req.query?.erc20\<close>.\<close>

definition getBalance_route :: "server \<Rightarrow> string option \<Rightarrow> string option \<Rightarrow> event list" where
  "getBalance_route srv c t =
     (let balance = (case evms_get srv c of
                       None \<Rightarrow> None
                     | Some e \<Rightarrow> getBalance (instance e) t);
          balance = (if bigint_truthy balance then balance else Some 0)
      in [Respond 200
            (JObj [(''balance'',
                    (case balance of None \<Rightarrow> JUndefined | Some i \<Rightarrow> JStr (bigint_toString i)))])])"

text \<open>A decimal string: at least one digit, after an optional minus sign.\<close>

definition is_digit :: "char \<Rightarrow> bool" where
  "is_digit c = (48 \<le> (of_char c :: nat) \<and> (of_char c :: nat) \<le> 57)"

definition decimal_string :: "string \<Rightarrow> bool" where
  "decimal_string s =
     (case s of
        [] \<Rightarrow> False
      | c # cs \<Rightarrow> if c = CHR ''-'' then cs \<noteq> [] \<and> list_all is_digit cs
                 else list_all is_digit (c # cs))"

section \<open>Reading a trace\<close>

definition responses :: "event list \<Rightarrow> event list" where
  "responses tr = filter is_response tr"

definition dispatches :: "event list \<Rightarrow> event list" where
  "dispatches tr = filter is_dispatch tr"

definition reclaims :: "event list \<Rightarrow> event list" where
  "reclaims tr = filter is_reclaim tr"

definition mainnet_checks :: "event list \<Rightarrow> event list" where
  "mainnet_checks tr = filter is_mainnet_check tr"

section \<open>The aggregation table of the specification\<close>

text \<open>
  The table of section 4.4 as the specification words it, for comparison with
  \<open>batch_then\<close>: given for each leg whether it succeeded, and the two hashes. The
  message texts, which the table leaves open, are the handler's.
  \<^item> success, success: 200, both hashes
  \<^item> success, failure: 400, native hash, secondary null
  \<^item> failure, success: 400, native null, secondary hash
  \<^item> failure, failure: 400, generic failure message
\<close>

fun table_4_4 :: "bool \<Rightarrow> bool \<Rightarrow> string option \<Rightarrow> string option \<Rightarrow> event" where
  "table_4_4 True True h k =
     Respond 200
       (JObj [(''message'', JStr ''Tokens sent successfully''),
              (''data'', JObj [(''nativeTxHash'', opt_str h), (''erc20TxHash'', opt_str k)])])"
| "table_4_4 True False h k =
     Respond 400
       (JObj [(''message'', JStr ''Native token sent successfully''),
              (''data'', JObj [(''nativeTxHash'', opt_str h), (''erc20TxHash'', JNull)])])"
| "table_4_4 False True h k =
     Respond 400
       (JObj [(''message'', JStr ''ERC20 token sent successfully''),
              (''data'', JObj [(''nativeTxHash'', JNull), (''erc20TxHash'', opt_str k)])])"
| "table_4_4 False False h k = Respond 400 (message_only ''Failed to send tokens'')"

section \<open>A small deployment for the examples\<close>

text \<open>One chain \<^verbatim>\<open>KITE\<close> with one token \<^verbatim>\<open>USDT\<close>. The chain's configuration, the coupon
  check and the behaviour of \<^verbatim>\<open>sendToken\<close> vary between the examples.\<close>

definition kite_open :: ChainType where
  "kite_open = [(''ID'', JStr ''KITE''), (''DRIP_AMOUNT'', JNum (Fin 2)),
                (''DECIMALS'', JNum (Fin 18))]"

definition kite_gated :: ChainType where
  "kite_gated = [(''ID'', JStr ''KITE''), (''DRIP_AMOUNT'', JNum (Fin 2)),
                 (''DECIMALS'', JNum (Fin 18)), (''COUPON_REQUIRED'', JBool True),
                 (''MAINNET_BALANCE_CHECK_ENABLED'', JBool True)]"

definition usdt_token :: ChainType where
  "usdt_token = [(''ID'', JStr ''USDT''), (''HOSTID'', JStr ''KITE''),
                 (''DRIP_AMOUNT'', JNum (Fin 5))]"

text \<open>A coupon check that accepts the coupon \<^verbatim>\<open>gold\<close> only.\<close>

definition accept_coupon :: "PipelineCheckValidity \<Rightarrow> PipelineCheckValidity" where
  "accept_coupon pv = pv\<lparr>isValid := True, checkPassedType := Some COUPON\<rparr>"

definition check_gold ::
  "PipelineCheckValidity \<Rightarrow> jsval \<Rightarrow> string option \<Rightarrow> PipelineCheckValidity" where
  "check_gold pv fid coupon =
     (if coupon = Some ''gold'' then accept_coupon pv
      else pv\<lparr>errorMessage := Some ''Invalid coupon. ''\<rparr>)"

definition check_mainnet_ok ::
  "PipelineCheckValidity \<Rightarrow> jsval \<Rightarrow> jsval \<Rightarrow> PipelineCheckValidity" where
  "check_mainnet_ok pv rpc addr = pv\<lparr>isValid := True, checkPassedType := Some MAINNET_BALANCE\<rparr>"

text \<open>A transfer that succeeds, one that fails, and collaborators that report them: for
  every asset, for the native asset only, for the token only.\<close>

definition sent :: SendTokenResponse where
  "sent = \<lparr>status = 200, message = ''Transaction sent'', txHash = Some ''0xaa''\<rparr>"

definition unsent :: SendTokenResponse where
  "unsent = \<lparr>status = 400, message = ''Transaction failed'', txHash = None\<rparr>"

text \<open>A result with status 200 that carries no transaction hash.\<close>

definition hashless :: SendTokenResponse where
  "hashless = \<lparr>status = 200, message = ''Transaction sent'', txHash = None\<rparr>"

definition send_ok :: "jsval \<Rightarrow> string option \<Rightarrow> jsval \<Rightarrow> send_outcome" where
  "send_ok addr t n = Reports sent"

definition send_fail :: "jsval \<Rightarrow> string option \<Rightarrow> jsval \<Rightarrow> send_outcome" where
  "send_fail addr t n = Reports unsent"

definition send_native_only :: "jsval \<Rightarrow> string option \<Rightarrow> jsval \<Rightarrow> send_outcome" where
  "send_native_only addr t n = (if t = None then Reports sent else Reports unsent)"

definition send_erc20_only :: "jsval \<Rightarrow> string option \<Rightarrow> jsval \<Rightarrow> send_outcome" where
  "send_erc20_only addr t n = (if t = None then Reports unsent else Reports sent)"

text \<open>A collaborator that reports status 200 without a hash, and one whose token
  transfer throws.\<close>

definition send_hashless :: "jsval \<Rightarrow> string option \<Rightarrow> jsval \<Rightarrow> send_outcome" where
  "send_hashless addr t n = Reports hashless"

definition send_erc20_throws :: "jsval \<Rightarrow> string option \<Rightarrow> jsval \<Rightarrow> send_outcome" where
  "send_erc20_throws addr t n = (if t = None then Reports sent else Throws ''nonce too low'')"

text \<open>A case mapping that knows the sharp s (U+00DF, bytes C3 9F in UTF-8), whose upper
  case is \<^verbatim>\<open>SS\<close>.\<close>

definition sharp_s :: string where
  "sharp_s = [char_of (195 :: nat), char_of (159 :: nat)]"

definition sharp_s_upper :: "string \<Rightarrow> string" where
  "sharp_s_upper s = (if s = sharp_s then ''SS'' else s)"

definition demo_evm ::
  "ChainType \<Rightarrow> (jsval \<Rightarrow> string option \<Rightarrow> jsval \<Rightarrow> send_outcome) \<Rightarrow> EVMInstanceAndConfig" where
  "demo_evm cfg send =
     \<lparr>config = cfg,
      instance = \<lparr>contracts = [''USDT'' \<mapsto> \<lparr>contract_config = usdt_token\<rparr>],
                  sendToken = send,
                  getBalance = (\<lambda>t. if t = None then Some 1205 else Some 0)\<rparr>\<rparr>"

definition demo_server ::
  "ChainType \<Rightarrow> (PipelineCheckValidity \<Rightarrow> jsval \<Rightarrow> string option \<Rightarrow> PipelineCheckValidity)
     \<Rightarrow> (jsval \<Rightarrow> string option \<Rightarrow> jsval \<Rightarrow> send_outcome) \<Rightarrow> server" where
  "demo_server cfg check send =
     \<lparr>evms = [''KITE'' \<mapsto> demo_evm cfg send],
      couponConfig_IS_ENABLED = JBool True,
      MAINNET_BALANCE_CHECK_RPC = JStr ''https://rpc.example'',
      NEO_COUPON_ID = Some ''neo'',
      checkCouponPipeline = check,
      checkMainnetBalancePipeline = check_mainnet_ok,
      pipelineFailureMessage = (\<lambda>rpc c. ''Check failed'')\<rparr>"

definition demo_body :: body where
  "demo_body =
     \<lparr>body_address = JStr ''0xabc'', body_chain = Some ''KITE'', body_erc20 = None,
      body_couponId = None, body_coupon = Some ''neo'', body_amount = Some (Fin 1),
      body_kiteAmount = Some (Fin 1), body_erc20Amount = Some (Fin 5)\<rparr>"

text \<open>A token that sets \<^verbatim>\<open>DECIMALS\<close> to 0 itself.\<close>

definition zero_decimals_token :: ChainType where
  "zero_decimals_token = [(''ID'', JStr ''ZDT''), (''HOSTID'', JStr ''KITE''),
                          (''DECIMALS'', JNum (Fin 0))]"

section \<open>Batch aggregation\<close>

text \<open>
  Claim C6, as amended. In batch dispatch a leg counts as succeeded exactly when its
  settled result has status 200, whether or not the result carries a transaction hash:
  the response is the row of the table selected by the two status tests, with the
  hashes the two results carry.
\<close>

theorem batch_status_classification:
  "batch_then n x = table_4_4 (status n = 200) (status x = 200) (txHash n) (txHash x)"
  by (simp add: batch_then_def)

text \<open>
  Claim C6 as stated fails: two legs that both report status 200 and no transaction hash
  are two failed legs for the claim, whose table row is the generic failure with status
  400, while the handler answers 200.
\<close>

theorem batch_txHash_classification_counterexample:
  "txHash hashless = None
   \<and> batch_then hashless hashless =
       Respond 200
         (JObj [(''message'', JStr ''Tokens sent successfully''),
                (''data'', JObj [(''nativeTxHash'', JUndefined), (''erc20TxHash'', JUndefined)])])
   \<and> table_4_4 (txHash hashless \<noteq> None) (txHash hashless \<noteq> None)
         (txHash hashless) (txHash hashless) =
       Respond 400 (JObj [(''message'', JStr ''Failed to send tokens'')])"
  by (simp add: batch_then_def hashless_def message_only_def)

text \<open>The two classifications agree, and the hashes of the succeeded legs are present,
  whenever each result has status 200 exactly when it carries a hash.\<close>

lemma batch_then_coherent:
  assumes "(status n = 200) = (txHash n \<noteq> None)" and "(status x = 200) = (txHash x \<noteq> None)"
  shows "batch_then n x = table_4_4 (txHash n \<noteq> None) (txHash x \<noteq> None) (txHash n) (txHash x)"
  using assms by (simp add: batch_then_def)

section \<open>The rate limiter key\<close>

lemma upper_char_not_lower:
  "\<not> (97 \<le> (of_char (upper_char c) :: nat) \<and> (of_char (upper_char c) :: nat) \<le> 122)"
  unfolding upper_char_def Let_def by auto

lemma ascii_text_iff: "ascii_text s \<longleftrightarrow> (\<forall>c \<in> set s. (of_char c :: nat) < 128)"
  by (simp add: ascii_text_def list_all_iff)

lemma toUpperCase_ascii:
  "ascii_text s \<Longrightarrow> toUpperCase unicode_upper s = map upper_char s"
  by (simp add: toUpperCase_def)

lemma toUpperCase_beyond:
  "\<not> ascii_text s \<Longrightarrow> toUpperCase unicode_upper s = unicode_upper s"
  by (simp add: toUpperCase_def)

lemma toUpperCase_no_lower:
  "ascii_text s \<Longrightarrow> c \<in> set (toUpperCase unicode_upper s) \<Longrightarrow>
     \<not> (97 \<le> (of_char c :: nat) \<and> (of_char c :: nat) \<le> 122)"
  using upper_char_not_lower by (auto simp: toUpperCase_ascii)

text \<open>
  Claim C7. The key generator of the per-identity limiter returns the address converted
  to upper case when the body's address is a non-empty string: for an ASCII address the
  key has the length of the address and holds, position by position, the capital of a
  small letter and every other character unchanged; for an address with text beyond
  ASCII it is what the runtime's case mapping makes of it. It returns \<^verbatim>\<open>undefined\<close> (no
  key) when the address is missing, is the empty string, or is not a string. The limiter
  counts the request under the derived key in the first case and under the per-resource
  key in the others.
\<close>

theorem keyGenerator_derivation:
  "(addr \<noteq> [] \<and> (\<forall>c \<in> set addr. (of_char c :: nat) < 128) \<longrightarrow>
      (\<exists>k. keyGenerator unicode_upper (JStr addr) = Some k
           \<and> limiter_key (keyGenerator unicode_upper) resource_key (JStr addr) = k
           \<and> length k = length addr
           \<and> (\<forall>i < length addr.
                 k ! i = (if 97 \<le> (of_char (addr ! i) :: nat) \<and> (of_char (addr ! i) :: nat) \<le> 122
                          then char_of ((of_char (addr ! i) :: nat) - 32)
                          else addr ! i))))
   \<and> (addr \<noteq> [] \<and> \<not> (\<forall>c \<in> set addr. (of_char c :: nat) < 128) \<longrightarrow>
        keyGenerator unicode_upper (JStr addr) = Some (unicode_upper addr)
        \<and> limiter_key (keyGenerator unicode_upper) resource_key (JStr addr) = unicode_upper addr)
   \<and> keyGenerator unicode_upper JUndefined = None
   \<and> keyGenerator unicode_upper (JStr []) = None
   \<and> ((\<forall>s. v \<noteq> JStr s) \<longrightarrow> keyGenerator unicode_upper v = None)
   \<and> (v = JUndefined \<or> v = JStr [] \<or> (\<forall>s. v \<noteq> JStr s) \<longrightarrow>
        limiter_key (keyGenerator unicode_upper) resource_key v = resource_key)"
proof -
  have ascii: "\<exists>k. keyGenerator unicode_upper (JStr addr) = Some k
           \<and> limiter_key (keyGenerator unicode_upper) resource_key (JStr addr) = k
           \<and> length k = length addr
           \<and> (\<forall>i < length addr.
                 k ! i = (if 97 \<le> (of_char (addr ! i) :: nat) \<and> (of_char (addr ! i) :: nat) \<le> 122
                          then char_of ((of_char (addr ! i) :: nat) - 32)
                          else addr ! i))"
    if "addr \<noteq> []" and "\<forall>c \<in> set addr. (of_char c :: nat) < 128"
  proof -
    from that(2) have "ascii_text addr" by (simp add: ascii_text_iff)
    then have up: "toUpperCase unicode_upper addr = map upper_char addr"
      by (rule toUpperCase_ascii)
    have "keyGenerator unicode_upper (JStr addr) = Some (map upper_char addr)"
      using that(1) up by simp
    moreover from this
    have "limiter_key (keyGenerator unicode_upper) resource_key (JStr addr) = map upper_char addr"
      by (simp add: limiter_key_def)
    moreover have "\<forall>i < length addr.
        map upper_char addr ! i
          = (if 97 \<le> (of_char (addr ! i) :: nat) \<and> (of_char (addr ! i) :: nat) \<le> 122
             then char_of ((of_char (addr ! i) :: nat) - 32)
             else addr ! i)"
      by (simp add: upper_char_def Let_def)
    ultimately show ?thesis by simp
  qed
  have beyond: "keyGenerator unicode_upper (JStr addr) = Some (unicode_upper addr)
        \<and> limiter_key (keyGenerator unicode_upper) resource_key (JStr addr) = unicode_upper addr"
    if "addr \<noteq> []" and "\<not> (\<forall>c \<in> set addr. (of_char c :: nat) < 128)"
  proof -
    from that(2) have "\<not> ascii_text addr" by (simp add: ascii_text_iff)
    then have "toUpperCase unicode_upper addr = unicode_upper addr"
      by (rule toUpperCase_beyond)
    with that(1) show ?thesis by (simp add: limiter_key_def)
  qed
  have not_string: "(\<forall>s. v \<noteq> JStr s) \<longrightarrow> keyGenerator unicode_upper v = None"
    by (cases v) simp_all
  then have fallback: "v = JUndefined \<or> v = JStr [] \<or> (\<forall>s. v \<noteq> JStr s) \<longrightarrow>
        limiter_key (keyGenerator unicode_upper) resource_key v = resource_key"
    by (auto simp: limiter_key_def)
  from ascii beyond not_string fallback show ?thesis by simp
qed

lemma four_elements: "length k = 4 \<Longrightarrow> k = [k ! 0, k ! 1, k ! 2, k ! 3]"
  by (auto simp: list_eq_iff_nth_eq less_Suc_eq eval_nat_numeral)

theorem keyGenerator_derivation_witness:
  "keyGenerator sharp_s_upper (JStr ''0xaB'') = Some ''0XAB''
   \<and> limiter_key (keyGenerator sharp_s_upper) ''198.51.100.7'' (JStr ''0xaB'') = ''0XAB''
   \<and> keyGenerator sharp_s_upper (JStr sharp_s) = Some ''SS''
   \<and> keyGenerator sharp_s_upper (JNum (Fin 7)) = None
   \<and> limiter_key (keyGenerator sharp_s_upper) ''198.51.100.7'' (JNum (Fin 7)) = ''198.51.100.7''
   \<and> limiter_key (keyGenerator sharp_s_upper) ''198.51.100.7'' JUndefined = ''198.51.100.7''
   \<and> limiter_key (keyGenerator sharp_s_upper) ''198.51.100.7'' (JStr []) = ''198.51.100.7''"
proof -
  let ?rk = "''198.51.100.7''"
  have plain: "''0xaB'' \<noteq> [] \<and> (\<forall>c \<in> set ''0xaB''. (of_char c :: nat) < 128)"
    by simp
  from keyGenerator_derivation [of "''0xaB''" sharp_s_upper ?rk "JNum (Fin 7)"] plain
  obtain k where k: "keyGenerator sharp_s_upper (JStr ''0xaB'') = Some k"
      "limiter_key (keyGenerator sharp_s_upper) ?rk (JStr ''0xaB'') = k"
      "length k = length ''0xaB''"
      "\<forall>i < length ''0xaB''.
         k ! i = (if 97 \<le> (of_char (''0xaB'' ! i) :: nat) \<and> (of_char (''0xaB'' ! i) :: nat) \<le> 122
                  then char_of ((of_char (''0xaB'' ! i) :: nat) - 32)
                  else ''0xaB'' ! i)"
    by blast
  have letters: "char_of (88 :: nat) = CHR ''X''" "char_of (65 :: nat) = CHR ''A''"
    by code_simp+
  from k(4) have "k ! 0 = CHR ''0''" "k ! 1 = CHR ''X''" "k ! 2 = CHR ''A''" "k ! 3 = CHR ''B''"
    by (simp_all add: letters)
  moreover from k(3) have "k = [k ! 0, k ! 1, k ! 2, k ! 3]"
    by (intro four_elements) simp
  ultimately have key: "k = ''0XAB''" by simp
  have sharp: "sharp_s \<noteq> [] \<and> \<not> (\<forall>c \<in> set sharp_s. (of_char c :: nat) < 128)"
    by (simp add: sharp_s_def)
  from keyGenerator_derivation [of sharp_s sharp_s_upper ?rk JUndefined] sharp
  have beyond: "keyGenerator sharp_s_upper (JStr sharp_s) = Some ''SS''"
    and missing: "limiter_key (keyGenerator sharp_s_upper) ?rk JUndefined = ?rk"
    by (simp_all add: sharp_s_upper_def)
  from keyGenerator_derivation [of "[]" sharp_s_upper ?rk "JStr []"]
  have empty: "limiter_key (keyGenerator sharp_s_upper) ?rk (JStr []) = ?rk"
    by blast
  from keyGenerator_derivation [of "[]" sharp_s_upper ?rk "JNum (Fin 7)"]
  have other: "keyGenerator sharp_s_upper (JNum (Fin 7)) = None"
    "limiter_key (keyGenerator sharp_s_upper) ?rk (JNum (Fin 7)) = ?rk"
    by simp_all
  from k(1,2) key beyond missing empty other show ?thesis by simp
qed

section \<open>The balance endpoint\<close>

lemma is_digit_digit_char: "d < 10 \<Longrightarrow> is_digit (digit_char d)"
  by (simp add: is_digit_def digit_char_def)

lemma nat_digits_digits: "list_all is_digit (nat_digits n)"
proof (induction n rule: nat_digits.induct)
  case (1 n)
  show ?case
  proof (cases "n < 10")
    case True
    then show ?thesis by (simp add: nat_digits.simps[of n] is_digit_digit_char)
  next
    case False
    with 1 show ?thesis by (simp add: nat_digits.simps[of n] is_digit_digit_char)
  qed
qed

lemma nat_digits_nonempty: "nat_digits n \<noteq> []"
  by (simp add: nat_digits.simps[of n])

lemma decimal_bigint_toString: "decimal_string (bigint_toString i)"
proof (cases "i < 0")
  case True
  then show ?thesis
    by (simp add: decimal_string_def bigint_toString_def nat_digits_nonempty nat_digits_digits)
next
  case False
  obtain c cs where cs: "nat_digits (nat i) = c # cs"
    using nat_digits_nonempty[of "nat i"] by (cases "nat_digits (nat i)") auto
  have digits: "list_all is_digit (c # cs)"
    using nat_digits_digits[of "nat i"] cs by simp
  have "\<not> is_digit (CHR ''-'')" by (simp add: is_digit_def)
  with digits have "c \<noteq> CHR ''-''" by auto
  with digits show ?thesis using False cs by (simp add: decimal_string_def bigint_toString_def)
qed

lemma bigint_toString_zero: "bigint_toString 0 = ''0''"
  by code_simp

text \<open>
  Claim C10. \<^verbatim>\<open>/getBalance\<close> always answers with status 200 and a decimal string: the
  string \<^verbatim>\<open>0\<close> when the chain is unknown or the collaborator's balance is falsy
  (\<^verbatim>\<open>undefined\<close> or \<^verbatim>\<open>0n\<close>), the digits of the balance otherwise.
\<close>

theorem getBalance_always_200:
  "(\<exists>s. getBalance_route srv c t = [Respond 200 (JObj [(''balance'', JStr s)])]
        \<and> decimal_string s)
   \<and> (evms_get srv c = None \<longrightarrow>
        getBalance_route srv c t = [Respond 200 (JObj [(''balance'', JStr ''0'')])])
   \<and> (\<forall>e. evms_get srv c = Some e \<and> \<not> bigint_truthy (getBalance (instance e) t) \<longrightarrow>
        getBalance_route srv c t = [Respond 200 (JObj [(''balance'', JStr ''0'')])])
   \<and> (\<forall>e i. evms_get srv c = Some e \<and> getBalance (instance e) t = Some i \<and> i \<noteq> 0 \<longrightarrow>
        getBalance_route srv c t = [Respond 200 (JObj [(''balance'', JStr (bigint_toString i))])])"
proof -
  define bal where "bal = (case evms_get srv c of None \<Rightarrow> None | Some e \<Rightarrow> getBalance (instance e) t)"
  have route: "getBalance_route srv c t =
      [Respond 200 (JObj [(''balance'',
         JStr (bigint_toString (if bigint_truthy bal then the bal else 0)))])]"
    by (cases bal) (auto simp: getBalance_route_def bal_def Let_def)
  have first: "\<exists>s. getBalance_route srv c t = [Respond 200 (JObj [(''balance'', JStr s)])]
        \<and> decimal_string s"
    using route decimal_bigint_toString by blast
  have second: "evms_get srv c = None \<longrightarrow>
        getBalance_route srv c t = [Respond 200 (JObj [(''balance'', JStr ''0'')])]"
    using route by (simp add: bal_def bigint_toString_zero)
  have third: "\<forall>e. evms_get srv c = Some e \<and> \<not> bigint_truthy (getBalance (instance e) t) \<longrightarrow>
        getBalance_route srv c t = [Respond 200 (JObj [(''balance'', JStr ''0'')])]"
    using route by (auto simp: bal_def bigint_toString_zero)
  have fourth: "\<forall>e i. evms_get srv c = Some e \<and> getBalance (instance e) t = Some i \<and> i \<noteq> 0 \<longrightarrow>
        getBalance_route srv c t = [Respond 200 (JObj [(''balance'', JStr (bigint_toString i))])]"
    using route by (auto simp: bal_def)
  from first second third fourth show ?thesis by blast
qed

theorem getBalance_always_200_witness:
  "getBalance_route (demo_server kite_open check_gold send_ok) (Some ''NOPE'') None
     = [Respond 200 (JObj [(''balance'', JStr ''0'')])]
   \<and> getBalance_route (demo_server kite_open check_gold send_ok) (Some ''KITE'') (Some ''USDT'')
     = [Respond 200 (JObj [(''balance'', JStr ''0'')])]
   \<and> getBalance_route (demo_server kite_open check_gold send_ok) (Some ''KITE'') None
     = [Respond 200 (JObj [(''balance'', JStr ''1205'')])]"
proof -
  let ?srv = "demo_server kite_open check_gold send_ok"
  have digits: "bigint_toString 1205 = ''1205''" by code_simp
  have unknown: "evms_get ?srv (Some ''NOPE'') = None"
    by (simp add: evms_get_def demo_server_def)
  have known: "evms_get ?srv (Some ''KITE'') = Some (demo_evm kite_open send_ok)"
    by (simp add: evms_get_def demo_server_def)
  have zero: "\<not> bigint_truthy (getBalance (instance (demo_evm kite_open send_ok)) (Some ''USDT''))"
    by (simp add: demo_evm_def)
  have some: "getBalance (instance (demo_evm kite_open send_ok)) None = Some 1205"
    by (simp add: demo_evm_def)
  from getBalance_always_200 [of ?srv "Some ''NOPE''" None] unknown
  have a: "getBalance_route ?srv (Some ''NOPE'') None
     = [Respond 200 (JObj [(''balance'', JStr ''0'')])]" by blast
  from getBalance_always_200 [of ?srv "Some ''KITE''" "Some ''USDT''"] known zero
  have b: "getBalance_route ?srv (Some ''KITE'') (Some ''USDT'')
     = [Respond 200 (JObj [(''balance'', JStr ''0'')])]" by blast
  from getBalance_always_200 [of ?srv "Some ''KITE''" None] known some
  have "getBalance_route ?srv (Some ''KITE'') None
     = [Respond 200 (JObj [(''balance'', JStr (bigint_toString 1205))])]" by simp
  with digits a b show ?thesis by simp
qed

section \<open>Validation of the batch amounts\<close>

lemma invalid_amount_iff:
  "invalid_amount a \<longleftrightarrow>
     a = None \<or> a = Some NaN \<or> a = Some NegInf \<or> (\<exists>r. a = Some (Fin r) \<and> r \<le> 0)"
proof (cases a)
  case None
  then show ?thesis by (simp add: invalid_amount_def)
next
  case (Some n)
  then show ?thesis by (cases n) (auto simp: invalid_amount_def)
qed

lemma dispatches_batch_settle: "dispatches (batch_settle p q) = []"
  by (simp add: dispatches_def batch_settle_def batch_then_def split: send_outcome.splits)

lemma dispatches_batch_dispatch:
  "dispatches (batch_dispatch e b) =
     [SendToken (body_address b) None (opt_num (body_kiteAmount b)),
      SendToken (body_address b) (Some (batch_erc20 b)) (opt_num (body_erc20Amount b))]"
  using dispatches_batch_settle by (simp add: batch_dispatch_def dispatches_def)

lemma batch_route_admitted:
  assumes "\<not> invalid_amount (body_kiteAmount b)"
      and "body_coupon b = NEO_COUPON_ID srv"
      and "evms_get srv (Some (batch_chain b)) = Some e"
      and "\<not> invalid_parameters (Some e) (Some (batch_erc20 b))
               (contracts_get (Some e) (Some (batch_erc20 b)))"
  shows "batchClaimToken_route srv b = batch_dispatch e b"
  using assms by (simp add: batchClaimToken_route_def Let_def)

lemma demo_evms_get:
  "evms_get (demo_server cfg check send) (Some ''KITE'') = Some (demo_evm cfg send)"
  by (simp add: evms_get_def demo_server_def)

lemma demo_contracts_get:
  "contracts_get (Some (demo_evm cfg send)) (Some ''USDT'') = Some \<lparr>contract_config = usdt_token\<rparr>"
  "contracts_get (Some (demo_evm cfg send)) None = None"
  "contracts_get (Some (demo_evm cfg send)) (Some []) = None"
  by (simp_all add: contracts_get_def demo_evm_def)

text \<open>
  Claim C9. In \<^verbatim>\<open>/batchClaimToken\<close> only \<^verbatim>\<open>kiteAmount\<close> is validated: a request that passes
  the amount, coupon and parameter validations sends both transfers whatever its
  \<^verbatim>\<open>erc20Amount\<close> is (missing, zero and negative included), the secondary one with
  exactly that amount, while an invalid \<^verbatim>\<open>kiteAmount\<close> is rejected with status 400.
\<close>

theorem batch_erc20Amount_not_validated:
  assumes "\<not> invalid_amount (body_kiteAmount b)"
      and "body_coupon b = NEO_COUPON_ID srv"
      and "evms_get srv (Some (batch_chain b)) = Some e"
      and "\<not> invalid_parameters (Some e) (Some (batch_erc20 b))
               (contracts_get (Some e) (Some (batch_erc20 b)))"
  shows "dispatches (batchClaimToken_route srv (b\<lparr>body_erc20Amount := a\<rparr>)) =
           [SendToken (body_address b) None (opt_num (body_kiteAmount b)),
            SendToken (body_address b) (Some (batch_erc20 b)) (opt_num a)]
         \<and> (invalid_amount k \<longrightarrow>
              batchClaimToken_route srv (b\<lparr>body_kiteAmount := k, body_erc20Amount := a\<rparr>) =
                [Respond 400 (message_only ''Invalid amount passed!'')])"
proof -
  let ?b = "b\<lparr>body_erc20Amount := a\<rparr>"
  have "batchClaimToken_route srv ?b = batch_dispatch e ?b"
    using assms by (intro batch_route_admitted) (simp_all add: batch_chain_def batch_erc20_def)
  then have "dispatches (batchClaimToken_route srv ?b) =
           [SendToken (body_address b) None (opt_num (body_kiteAmount b)),
            SendToken (body_address b) (Some (batch_erc20 b)) (opt_num a)]"
    by (simp add: dispatches_batch_dispatch batch_erc20_def)
  moreover have "invalid_amount k \<longrightarrow>
              batchClaimToken_route srv (b\<lparr>body_kiteAmount := k, body_erc20Amount := a\<rparr>) =
                [Respond 400 (message_only ''Invalid amount passed!'')]"
    by (simp add: batchClaimToken_route_def)
  ultimately show ?thesis by blast
qed

theorem batch_erc20Amount_not_validated_witness:
  "dispatches (batchClaimToken_route (demo_server kite_open check_gold send_ok)
                 (demo_body\<lparr>body_erc20Amount := Some (Fin (- 5))\<rparr>)) =
     [SendToken (JStr ''0xabc'') None (JNum (Fin 1)),
      SendToken (JStr ''0xabc'') (Some ''USDT'') (JNum (Fin (- 5)))]
   \<and> batchClaimToken_route (demo_server kite_open check_gold send_ok)
        (demo_body\<lparr>body_kiteAmount := Some (Fin 0), body_erc20Amount := Some (Fin (- 5))\<rparr>) =
     [Respond 400 (message_only ''Invalid amount passed!'')]"
proof -
  let ?srv = "demo_server kite_open check_gold send_ok"
  have amount: "\<not> invalid_amount (body_kiteAmount demo_body)"
    by (simp add: invalid_amount_def demo_body_def)
  have zero: "invalid_amount (Some (Fin 0))"
    by (simp add: invalid_amount_def)
  have coupon: "body_coupon demo_body = NEO_COUPON_ID ?srv"
    by (simp add: demo_body_def demo_server_def)
  have erc20: "batch_erc20 demo_body = ''USDT''" and chain: "batch_chain demo_body = ''KITE''"
    by (simp_all add: batch_erc20_def batch_chain_def demo_body_def)
  have evm: "evms_get ?srv (Some (batch_chain demo_body)) = Some (demo_evm kite_open send_ok)"
    by (simp add: chain demo_evms_get)
  have params: "\<not> invalid_parameters (Some (demo_evm kite_open send_ok))
                   (Some (batch_erc20 demo_body))
                   (contracts_get (Some (demo_evm kite_open send_ok)) (Some (batch_erc20 demo_body)))"
    by (simp add: erc20 demo_contracts_get invalid_parameters_def)
  have fields: "body_address demo_body = JStr ''0xabc''"
    "body_kiteAmount demo_body = Some (Fin 1)"
    by (simp_all add: demo_body_def)
  from batch_erc20Amount_not_validated [OF amount coupon evm params,
      of "Some (Fin (- 5))" "Some (Fin 0)"] zero
  show ?thesis by (simp add: erc20 fields)
qed

section \<open>The response of a batch request\<close>

lemma responses_batch_dispatch:
  "responses (batch_dispatch e b) =
     batch_settle
       (sendToken (instance e) (body_address b) None (opt_num (body_kiteAmount b)))
       (sendToken (instance e) (body_address b) (Some (batch_erc20 b))
          (opt_num (body_erc20Amount b)))"
  by (simp add: responses_def batch_dispatch_def batch_settle_def batch_then_def
      split: send_outcome.splits)

lemma demo_batch_valid:
  "\<not> invalid_amount (body_kiteAmount demo_body)"
  "body_coupon demo_body = NEO_COUPON_ID (demo_server cfg check send)"
  "evms_get (demo_server cfg check send) (Some (batch_chain demo_body)) = Some (demo_evm cfg send)"
  "\<not> invalid_parameters (Some (demo_evm cfg send)) (Some (batch_erc20 demo_body))
       (contracts_get (Some (demo_evm cfg send)) (Some (batch_erc20 demo_body)))"
  by (simp_all add: invalid_amount_def demo_body_def demo_server_def evms_get_def
      batch_chain_def batch_erc20_def invalid_parameters_def contracts_get_def demo_evm_def)

text \<open>
  Claim C1, as amended. For every \<^verbatim>\<open>/batchClaimToken\<close> request that passes validation and
  whose two legs both report a result, the handler sends one response, the row of the
  table of section 4.4 chosen by counting a leg as succeeded exactly when its result has
  status 200, with the \<^verbatim>\<open>txHash\<close> the results carry (none when a result carries none):
  both status 200, HTTP 200 with the two \<^verbatim>\<open>txHash\<close>; only the native leg, 400 with the
  native \<^verbatim>\<open>txHash\<close> and \<^verbatim>\<open>erc20TxHash\<close> null; only the secondary leg, 400 with
  \<^verbatim>\<open>nativeTxHash\<close> null and the secondary \<^verbatim>\<open>txHash\<close>; neither, 400 with the generic
  failure message. When a leg settles by its \<^verbatim>\<open>sendToken\<close> throwing, the response is
  400 with the thrown message and no hash. So a response with status 400 can carry the
  hash of a transfer that was sent.
\<close>

theorem batch_aggregation_table:
  assumes amount: "\<not> invalid_amount (body_kiteAmount b)"
      and coupon: "body_coupon b = NEO_COUPON_ID srv"
      and evm: "evms_get srv (Some (batch_chain b)) = Some e"
      and params: "\<not> invalid_parameters (Some e) (Some (batch_erc20 b))
                      (contracts_get (Some e) (Some (batch_erc20 b)))"
      and native: "native = sendToken (instance e) (body_address b) None
                              (opt_num (body_kiteAmount b))"
      and secondary: "secondary = sendToken (instance e) (body_address b)
                                    (Some (batch_erc20 b)) (opt_num (body_erc20Amount b))"
  shows "(\<forall>n x. native = Reports n \<and> secondary = Reports x \<longrightarrow>
            (status n = 200 \<and> status x = 200 \<longrightarrow>
               responses (batchClaimToken_route srv b) =
                 [Respond 200
                    (JObj [(''message'', JStr ''Tokens sent successfully''),
                           (''data'', JObj [(''nativeTxHash'', opt_str (txHash n)),
                                            (''erc20TxHash'', opt_str (txHash x))])])])
          \<and> (status n = 200 \<and> status x \<noteq> 200 \<longrightarrow>
               responses (batchClaimToken_route srv b) =
                 [Respond 400
                    (JObj [(''message'', JStr ''Native token sent successfully''),
                           (''data'', JObj [(''nativeTxHash'', opt_str (txHash n)),
                                            (''erc20TxHash'', JNull)])])])
          \<and> (status n \<noteq> 200 \<and> status x = 200 \<longrightarrow>
               responses (batchClaimToken_route srv b) =
                 [Respond 400
                    (JObj [(''message'', JStr ''ERC20 token sent successfully''),
                           (''data'', JObj [(''nativeTxHash'', JNull),
                                            (''erc20TxHash'', opt_str (txHash x))])])])
          \<and> (status n \<noteq> 200 \<and> status x \<noteq> 200 \<longrightarrow>
               responses (batchClaimToken_route srv b) =
                 [Respond 400 (JObj [(''message'', JStr ''Failed to send tokens'')])]))
       \<and> (\<forall>m. native = Throws m \<longrightarrow>
             responses (batchClaimToken_route srv b) =
               [Respond 400 (JObj [(''message'', JStr m)])])
       \<and> (\<forall>n m. native = Reports n \<and> secondary = Throws m \<longrightarrow>
             responses (batchClaimToken_route srv b) =
               [Respond 400 (JObj [(''message'', JStr m)])])"
proof -
  have route: "batchClaimToken_route srv b = batch_dispatch e b"
    using amount coupon evm params by (rule batch_route_admitted)
  have settled: "responses (batchClaimToken_route srv b) = batch_settle native secondary"
    by (simp add: route responses_batch_dispatch native secondary)
  show ?thesis
    unfolding settled
    by (simp add: batch_settle_def batch_then_def message_only_def)
qed

theorem batch_aggregation_table_witness:
  "responses (batchClaimToken_route (demo_server kite_open check_gold send_ok) demo_body) =
     [Respond 200
        (JObj [(''message'', JStr ''Tokens sent successfully''),
               (''data'', JObj [(''nativeTxHash'', JStr ''0xaa''),
                                (''erc20TxHash'', JStr ''0xaa'')])])]
   \<and> responses (batchClaimToken_route (demo_server kite_open check_gold send_native_only)
                  demo_body) =
     [Respond 400
        (JObj [(''message'', JStr ''Native token sent successfully''),
               (''data'', JObj [(''nativeTxHash'', JStr ''0xaa''), (''erc20TxHash'', JNull)])])]
   \<and> responses (batchClaimToken_route (demo_server kite_open check_gold send_erc20_only)
                  demo_body) =
     [Respond 400
        (JObj [(''message'', JStr ''ERC20 token sent successfully''),
               (''data'', JObj [(''nativeTxHash'', JNull), (''erc20TxHash'', JStr ''0xaa'')])])]
   \<and> responses (batchClaimToken_route (demo_server kite_open check_gold send_fail) demo_body) =
     [Respond 400 (JObj [(''message'', JStr ''Failed to send tokens'')])]
   \<and> responses (batchClaimToken_route (demo_server kite_open check_gold send_erc20_throws)
                  demo_body) =
     [Respond 400 (JObj [(''message'', JStr ''nonce too low'')])]"
proof -
  have erc20: "batch_erc20 demo_body = ''USDT''"
    by (simp add: batch_erc20_def demo_body_def)
  have send: "sendToken (instance (demo_evm kite_open f)) = f" for f
    by (simp add: demo_evm_def)
  from batch_aggregation_table
    [OF demo_batch_valid(1) demo_batch_valid(2) [of kite_open check_gold send_ok]
       demo_batch_valid(3) [of kite_open check_gold send_ok]
       demo_batch_valid(4) [of kite_open send_ok] refl refl]
  have ok: "responses (batchClaimToken_route (demo_server kite_open check_gold send_ok)
                         demo_body) =
     [Respond 200
        (JObj [(''message'', JStr ''Tokens sent successfully''),
               (''data'', JObj [(''nativeTxHash'', JStr ''0xaa''),
                                (''erc20TxHash'', JStr ''0xaa'')])])]"
    by (simp add: send send_ok_def sent_def)
  from batch_aggregation_table
    [OF demo_batch_valid(1) demo_batch_valid(2) [of kite_open check_gold send_native_only]
       demo_batch_valid(3) [of kite_open check_gold send_native_only]
       demo_batch_valid(4) [of kite_open send_native_only] refl refl]
  have native_only: "responses (batchClaimToken_route
                        (demo_server kite_open check_gold send_native_only) demo_body) =
     [Respond 400
        (JObj [(''message'', JStr ''Native token sent successfully''),
               (''data'', JObj [(''nativeTxHash'', JStr ''0xaa''), (''erc20TxHash'', JNull)])])]"
    by (simp add: send send_native_only_def sent_def unsent_def)
  from batch_aggregation_table
    [OF demo_batch_valid(1) demo_batch_valid(2) [of kite_open check_gold send_erc20_only]
       demo_batch_valid(3) [of kite_open check_gold send_erc20_only]
       demo_batch_valid(4) [of kite_open send_erc20_only] refl refl]
  have erc20_only: "responses (batchClaimToken_route
                        (demo_server kite_open check_gold send_erc20_only) demo_body) =
     [Respond 400
        (JObj [(''message'', JStr ''ERC20 token sent successfully''),
               (''data'', JObj [(''nativeTxHash'', JNull), (''erc20TxHash'', JStr ''0xaa'')])])]"
    by (simp add: send send_erc20_only_def sent_def unsent_def)
  from batch_aggregation_table
    [OF demo_batch_valid(1) demo_batch_valid(2) [of kite_open check_gold send_fail]
       demo_batch_valid(3) [of kite_open check_gold send_fail]
       demo_batch_valid(4) [of kite_open send_fail] refl refl]
  have fail: "responses (batchClaimToken_route (demo_server kite_open check_gold send_fail)
                           demo_body) =
     [Respond 400 (JObj [(''message'', JStr ''Failed to send tokens'')])]"
    by (simp add: send send_fail_def unsent_def)
  from batch_aggregation_table
    [OF demo_batch_valid(1) demo_batch_valid(2) [of kite_open check_gold send_erc20_throws]
       demo_batch_valid(3) [of kite_open check_gold send_erc20_throws]
       demo_batch_valid(4) [of kite_open send_erc20_throws] refl refl]
  have throws: "responses (batchClaimToken_route
                     (demo_server kite_open check_gold send_erc20_throws) demo_body) =
     [Respond 400 (JObj [(''message'', JStr ''nonce too low'')])]"
    by (simp add: send send_erc20_throws_def)
  from ok native_only erc20_only fail throws show ?thesis by blast
qed

text \<open>
  Claim C1 as stated fails at two settled requests. Two legs that report status 200
  without a transaction hash are answered 200 with no hash at all, neither "200 with
  both transaction hashes" nor the 400 that section 4.4 gives to two legs without a
  hash. And when the native leg is sent (status 200, with its hash) and the secondary
  leg settles by throwing, the answer is 400 with the thrown message: the native hash is
  not in it.
\<close>

theorem batch_aggregation_counterexample:
  "txHash hashless = None
   \<and> batchClaimToken_route (demo_server kite_open check_gold send_hashless) demo_body =
       [SendToken (JStr ''0xabc'') None (JNum (Fin 1)),
        SendToken (JStr ''0xabc'') (Some ''USDT'') (JNum (Fin 5)),
        Respond 200
          (JObj [(''message'', JStr ''Tokens sent successfully''),
                 (''data'', JObj [(''nativeTxHash'', JUndefined),
                                  (''erc20TxHash'', JUndefined)])])]
   \<and> send_erc20_throws (JStr ''0xabc'') None (JNum (Fin 1)) = Reports sent
   \<and> txHash sent = Some ''0xaa''
   \<and> batchClaimToken_route (demo_server kite_open check_gold send_erc20_throws) demo_body =
       [SendToken (JStr ''0xabc'') None (JNum (Fin 1)),
        SendToken (JStr ''0xabc'') (Some ''USDT'') (JNum (Fin 5)),
        Respond 400 (JObj [(''message'', JStr ''nonce too low'')])]"
proof -
  have route: "batchClaimToken_route (demo_server kite_open check_gold f) demo_body =
      batch_dispatch (demo_evm kite_open f) demo_body" for f
    using demo_batch_valid by (rule batch_route_admitted)
  have dispatch: "batch_dispatch (demo_evm kite_open f) demo_body =
      [SendToken (JStr ''0xabc'') None (JNum (Fin 1)),
       SendToken (JStr ''0xabc'') (Some ''USDT'') (JNum (Fin 5))]
      @ batch_settle (f (JStr ''0xabc'') None (JNum (Fin 1)))
          (f (JStr ''0xabc'') (Some ''USDT'') (JNum (Fin 5)))" for f
    by (simp add: batch_dispatch_def batch_erc20_def demo_body_def demo_evm_def)
  show ?thesis
    unfolding route dispatch
    by (simp add: send_hashless_def send_erc20_throws_def batch_settle_def batch_then_def
        hashless_def sent_def message_only_def)
qed

section \<open>Validation in /claimToken\<close>

lemma claimToken_rejects:
  assumes "invalid_amount (body_amount b) \<or> body_coupon b \<noteq> NEO_COUPON_ID srv
           \<or> invalid_parameters (evms_get srv (body_chain b)) (body_erc20 b)
                (contracts_get (evms_get srv (body_chain b)) (body_erc20 b))"
  shows "\<exists>m. claimToken_route srv b = [Respond 400 (message_only m)]"
  using assms by (auto simp: claimToken_route_def Let_def)

lemma claimToken_admits:
  assumes "\<not> invalid_amount (body_amount b)" "body_coupon b = NEO_COUPON_ID srv"
      and "\<not> invalid_parameters (evms_get srv (body_chain b)) (body_erc20 b)
                (contracts_get (evms_get srv (body_chain b)) (body_erc20 b))"
  shows "dispatches (claimToken_route srv b) =
           [SendToken (body_address b) (body_erc20 b) (opt_num (body_amount b))]"
proof -
  from assms(3) obtain e where e: "evms_get srv (body_chain b) = Some e"
    by (auto simp: invalid_parameters_def)
  with assms show ?thesis
    by (simp add: claimToken_route_def Let_def dispatches_def forward_response_def
        split: send_outcome.splits)
qed

text \<open>
  Claim C8, as amended. \<^verbatim>\<open>/claimToken\<close> answers 400 and requests no transfer when the
  amount is missing, zero or negative, or when the coupon differs from the configured
  coupon identifier, or when the chain is unknown or a supplied non-empty \<^verbatim>\<open>erc20\<close>
  identifier does not resolve on that chain; a request for which a transfer is requested
  has passed the three validations, and the transfer is the one it asked for.
\<close>

theorem claimToken_validation:
  "((body_amount b = None \<or> body_amount b = Some NegInf
       \<or> (\<exists>r. body_amount b = Some (Fin r) \<and> r \<le> 0)
     \<or> body_coupon b \<noteq> NEO_COUPON_ID srv
     \<or> evms_get srv (body_chain b) = None
     \<or> (\<exists>t. body_erc20 b = Some t \<and> t \<noteq> []
            \<and> contracts_get (evms_get srv (body_chain b)) (body_erc20 b) = None))
    \<longrightarrow> (\<exists>m. claimToken_route srv b = [Respond 400 (message_only m)]))
   \<and> (dispatches (claimToken_route srv b) \<noteq> [] \<longrightarrow>
        \<not> invalid_amount (body_amount b)
        \<and> body_coupon b = NEO_COUPON_ID srv
        \<and> \<not> invalid_parameters (evms_get srv (body_chain b)) (body_erc20 b)
                (contracts_get (evms_get srv (body_chain b)) (body_erc20 b))
        \<and> dispatches (claimToken_route srv b) =
            [SendToken (body_address b) (body_erc20 b) (opt_num (body_amount b))])"
proof -
  let ?bad = "invalid_amount (body_amount b) \<or> body_coupon b \<noteq> NEO_COUPON_ID srv
           \<or> invalid_parameters (evms_get srv (body_chain b)) (body_erc20 b)
                (contracts_get (evms_get srv (body_chain b)) (body_erc20 b))"
  have rejected: "?bad \<Longrightarrow> \<exists>m. claimToken_route srv b = [Respond 400 (message_only m)]"
    by (rule claimToken_rejects)
  have "(body_amount b = None \<or> body_amount b = Some NegInf
       \<or> (\<exists>r. body_amount b = Some (Fin r) \<and> r \<le> 0)
     \<or> body_coupon b \<noteq> NEO_COUPON_ID srv
     \<or> evms_get srv (body_chain b) = None
     \<or> (\<exists>t. body_erc20 b = Some t \<and> t \<noteq> []
            \<and> contracts_get (evms_get srv (body_chain b)) (body_erc20 b) = None)) \<Longrightarrow> ?bad"
    by (auto simp: invalid_amount_iff invalid_parameters_def)
  with rejected have first: "(body_amount b = None \<or> body_amount b = Some NegInf
       \<or> (\<exists>r. body_amount b = Some (Fin r) \<and> r \<le> 0)
     \<or> body_coupon b \<noteq> NEO_COUPON_ID srv
     \<or> evms_get srv (body_chain b) = None
     \<or> (\<exists>t. body_erc20 b = Some t \<and> t \<noteq> []
            \<and> contracts_get (evms_get srv (body_chain b)) (body_erc20 b) = None))
    \<longrightarrow> (\<exists>m. claimToken_route srv b = [Respond 400 (message_only m)])"
    by blast
  have no_dispatch: "?bad \<Longrightarrow> dispatches (claimToken_route srv b) = []"
    using rejected by (auto simp: dispatches_def)
  have second: "dispatches (claimToken_route srv b) \<noteq> [] \<longrightarrow>
        \<not> invalid_amount (body_amount b)
        \<and> body_coupon b = NEO_COUPON_ID srv
        \<and> \<not> invalid_parameters (evms_get srv (body_chain b)) (body_erc20 b)
                (contracts_get (evms_get srv (body_chain b)) (body_erc20 b))
        \<and> dispatches (claimToken_route srv b) =
            [SendToken (body_address b) (body_erc20 b) (opt_num (body_amount b))]"
    using no_dispatch claimToken_admits [of b srv] by blast
  from first second show ?thesis by blast
qed

theorem claimToken_validation_witness:
  "(\<exists>m. claimToken_route (demo_server kite_open check_gold send_ok)
          (demo_body\<lparr>body_erc20 := Some ''DAI''\<rparr>) = [Respond 400 (message_only m)])
   \<and> dispatches (claimToken_route (demo_server kite_open check_gold send_ok)
                   (demo_body\<lparr>body_erc20 := Some ''USDT''\<rparr>)) =
       [SendToken (JStr ''0xabc'') (Some ''USDT'') (JNum (Fin 1))]"
proof -
  let ?srv = "demo_server kite_open check_gold send_ok"
  let ?bad = "demo_body\<lparr>body_erc20 := Some ''DAI''\<rparr>"
  let ?good = "demo_body\<lparr>body_erc20 := Some ''USDT''\<rparr>"
  have unresolved: "\<exists>t. body_erc20 ?bad = Some t \<and> t \<noteq> []
      \<and> contracts_get (evms_get ?srv (body_chain ?bad)) (body_erc20 ?bad) = None"
    by (simp add: demo_body_def demo_evms_get contracts_get_def demo_evm_def)
  have sends: "dispatches (claimToken_route ?srv ?good) \<noteq> []"
    by (simp add: claimToken_route_def invalid_amount_def demo_body_def demo_server_def
        evms_get_def contracts_get_def demo_evm_def invalid_parameters_def dispatches_def
        send_ok_def)
  from claimToken_validation [of ?bad ?srv] unresolved
  have a: "\<exists>m. claimToken_route ?srv ?bad = [Respond 400 (message_only m)]" by blast
  from claimToken_validation [of ?good ?srv] sends
  have "dispatches (claimToken_route ?srv ?good) =
      [SendToken (body_address ?good) (body_erc20 ?good) (opt_num (body_amount ?good))]"
    by blast
  then have b: "dispatches (claimToken_route ?srv ?good) =
       [SendToken (JStr ''0xabc'') (Some ''USDT'') (JNum (Fin 1))]"
    by (simp add: demo_body_def)
  from a b show ?thesis by blast
qed

text \<open>
  Claim C8 as stated fails for the empty string: it is a supplied \<^verbatim>\<open>erc20\<close> that
  resolves to no token of the chain, and the request is not rejected, because
  \<^verbatim>\<open>erc20 && erc20Instance === undefined\<close> is falsy for it. The transfer is requested
  with the empty identifier.
\<close>

theorem claimToken_empty_erc20_counterexample:
  "body_erc20 (demo_body\<lparr>body_erc20 := Some []\<rparr>) = Some []
   \<and> contracts_get
       (evms_get (demo_server kite_open check_gold send_ok)
          (body_chain (demo_body\<lparr>body_erc20 := Some []\<rparr>)))
       (body_erc20 (demo_body\<lparr>body_erc20 := Some []\<rparr>)) = None
   \<and> claimToken_route (demo_server kite_open check_gold send_ok)
       (demo_body\<lparr>body_erc20 := Some []\<rparr>) =
     [SendToken (JStr ''0xabc'') (Some []) (JNum (Fin 1)),
      Respond 200 (JObj [(''message'', JStr ''Transaction sent''), (''txHash'', JStr ''0xaa'')])]"
  by (simp add: claimToken_route_def invalid_amount_def demo_body_def demo_server_def
      evms_get_def contracts_get_def demo_evm_def invalid_parameters_def
      send_ok_def sent_def forward_response_def)

section \<open>The pipeline of /sendToken\<close>

lemma coupon_stage_events:
  "dispatches (fst (coupon_stage srv b fid en pv)) = []"
  "reclaims (fst (coupon_stage srv b fid en pv)) = []"
  "mainnet_checks (fst (coupon_stage srv b fid en pv)) = []"
  by (simp_all add: coupon_stage_def dispatches_def reclaims_def mainnet_checks_def)


lemma mainnet_stage_coupon:
  "str_truthy (body_couponId b) \<Longrightarrow> mainnet_stage srv b en pv = ([], pv)"
  by (simp add: mainnet_stage_def)


lemma sendToken_route_resolved:
  assumes "evms_get srv (body_chain b) = Some e"
      and "inst = contracts_get (Some e) (body_erc20 b)"
      and "\<not> invalid_parameters (Some e) (body_erc20 b) inst"
  shows "sendToken_route srv b =
           (if pipeline_failed srv e inst (snd (sendToken_pipeline srv b e inst))
            then fst (sendToken_pipeline srv b e inst)
                 @ [pipeline_rejection srv e inst (snd (sendToken_pipeline srv b e inst))]
            else fst (sendToken_pipeline srv b e inst)
                 @ sendToken_dispatch e b (snd (sendToken_pipeline srv b e inst)))"
  using assms by (simp add: sendToken_route_def Let_def)

lemma pipeline_no_gate:
  assumes "\<not> truthy (mainnetCheckEnabled e inst)" "\<not> truthy (couponCheckEnabled srv e inst)"
  shows "sendToken_pipeline srv b e inst = ([], initial_validity e inst)"
  using assms by (simp add: sendToken_pipeline_def coupon_stage_def mainnet_stage_def Let_def)

text \<open>The \<^verbatim>\<open>??\<close> of line 141 takes the chain's amount for a token that carries none;
  the startup merge leaves no such token on a host that has an amount.\<close>

lemma configured_dripAmount_fallback:
  "nullish (js_get (contract_config t) ''DRIP_AMOUNT'') \<Longrightarrow>
     configured_dripAmount e (Some t) = js_get (config e) ''DRIP_AMOUNT''"
  by (simp add: configured_dripAmount_def token_field_def js_coalesce_def)

text \<open>
  Claim C4. A \<^verbatim>\<open>/sendToken\<close> request with valid parameters whose resolved configuration
  enables neither gate runs no check and is not rejected: the handler requests the
  transfer at once, with the configured \<^verbatim>\<open>DRIP_AMOUNT\<close>, and forwards what the
  collaborator reports. The amount is the chain's when no token was resolved and the
  token's when a token was resolved.
\<close>

theorem sendToken_no_gate_admits:
  assumes evm: "evms_get srv (body_chain b) = Some e"
      and inst: "inst = contracts_get (Some e) (body_erc20 b)"
      and params: "\<not> invalid_parameters (Some e) (body_erc20 b) inst"
      and mainnet_off: "\<not> truthy (mainnetCheckEnabled e inst)"
      and coupon_off: "\<not> truthy (couponCheckEnabled srv e inst)"
  shows "sendToken_route srv b =
           SendToken (body_address b) (body_erc20 b) (configured_dripAmount e inst)
           # (case sendToken (instance e) (body_address b) (body_erc20 b)
                     (configured_dripAmount e inst) of
                Reports data \<Rightarrow> [forward_response data]
              | Throws m \<Rightarrow> []
              | Silent \<Rightarrow> [])
         \<and> (inst = None \<longrightarrow> configured_dripAmount e inst = js_get (config e) ''DRIP_AMOUNT'')
         \<and> (\<forall>t. inst = Some t \<and> \<not> nullish (js_get (contract_config t) ''DRIP_AMOUNT'') \<longrightarrow>
               configured_dripAmount e inst = js_get (contract_config t) ''DRIP_AMOUNT'')"
proof -
  have pipe: "sendToken_pipeline srv b e inst = ([], initial_validity e inst)"
    using mainnet_off coupon_off by (rule pipeline_no_gate)
  have "\<not> pipeline_failed srv e inst (initial_validity e inst)"
    using mainnet_off coupon_off by (simp add: pipeline_failed_def)
  with pipe have "sendToken_route srv b = sendToken_dispatch e b (initial_validity e inst)"
    using sendToken_route_resolved [OF evm inst params] by simp
  then have route: "sendToken_route srv b =
           SendToken (body_address b) (body_erc20 b) (configured_dripAmount e inst)
           # (case sendToken (instance e) (body_address b) (body_erc20 b)
                     (configured_dripAmount e inst) of
                Reports data \<Rightarrow> [forward_response data]
              | Throws m \<Rightarrow> []
              | Silent \<Rightarrow> [])"
    by (simp add: sendToken_dispatch_def sendToken_callback_def initial_validity_def
        split: send_outcome.splits)
  have chain: "inst = None \<longrightarrow> configured_dripAmount e inst = js_get (config e) ''DRIP_AMOUNT''"
    by (simp add: configured_dripAmount_def token_field_def js_coalesce_def)
  have token: "\<forall>t. inst = Some t \<and> \<not> nullish (js_get (contract_config t) ''DRIP_AMOUNT'') \<longrightarrow>
               configured_dripAmount e inst = js_get (contract_config t) ''DRIP_AMOUNT''"
    by (simp add: configured_dripAmount_def token_field_def js_coalesce_def)
  from route chain token show ?thesis by blast
qed

theorem sendToken_no_gate_admits_witness:
  "sendToken_route (demo_server kite_open check_gold send_ok) demo_body =
     [SendToken (JStr ''0xabc'') None (JNum (Fin 2)),
      Respond 200 (JObj [(''message'', JStr ''Transaction sent''), (''txHash'', JStr ''0xaa'')])]
   \<and> sendToken_route (demo_server kite_open check_gold send_ok)
        (demo_body\<lparr>body_erc20 := Some ''USDT''\<rparr>) =
     [SendToken (JStr ''0xabc'') (Some ''USDT'') (JNum (Fin 5)),
      Respond 200 (JObj [(''message'', JStr ''Transaction sent''), (''txHash'', JStr ''0xaa'')])]"
proof -
  let ?srv = "demo_server kite_open check_gold send_ok"
  let ?e = "demo_evm kite_open send_ok"
  let ?usdt = "\<lparr>contract_config = usdt_token\<rparr>"
  let ?b = "demo_body\<lparr>body_erc20 := Some ''USDT''\<rparr>"
  have evm: "evms_get ?srv (body_chain demo_body) = Some ?e"
    "evms_get ?srv (body_chain ?b) = Some ?e"
    by (simp_all add: demo_body_def demo_evms_get)
  have inst: "None = contracts_get (Some ?e) (body_erc20 demo_body)"
    "Some ?usdt = contracts_get (Some ?e) (body_erc20 ?b)"
    by (simp_all add: demo_body_def demo_contracts_get)
  have params: "\<not> invalid_parameters (Some ?e) (body_erc20 demo_body) None"
    "\<not> invalid_parameters (Some ?e) (body_erc20 ?b) (Some ?usdt)"
    by (simp_all add: invalid_parameters_def demo_body_def)
  have mainnet_off: "\<not> truthy (mainnetCheckEnabled ?e None)"
    "\<not> truthy (mainnetCheckEnabled ?e (Some ?usdt))"
    by (simp_all add: mainnetCheckEnabled_def resolved_field_def js_get_def object_prototype_keys_def js_coalesce_def
        demo_evm_def kite_open_def usdt_token_def)
  have coupon_off: "\<not> truthy (couponCheckEnabled ?srv ?e None)"
    "\<not> truthy (couponCheckEnabled ?srv ?e (Some ?usdt))"
    by (simp_all add: couponCheckEnabled_def resolved_field_def js_get_def object_prototype_keys_def js_coalesce_def
        js_and_def demo_evm_def demo_server_def kite_open_def usdt_token_def)
  have drip: "js_get (config ?e) ''DRIP_AMOUNT'' = JNum (Fin 2)"
    "js_get usdt_token ''DRIP_AMOUNT'' = JNum (Fin 5)"
    by (simp_all add: js_get_def object_prototype_keys_def demo_evm_def kite_open_def usdt_token_def)
  have send: "sendToken (instance ?e) = send_ok"
    by (simp add: demo_evm_def)
  have fields: "body_address demo_body = JStr ''0xabc''" "body_erc20 demo_body = None"
    by (simp_all add: demo_body_def)
  from sendToken_no_gate_admits [OF evm(1) inst(1) params(1) mainnet_off(1) coupon_off(1)]
  have a: "sendToken_route ?srv demo_body =
     [SendToken (JStr ''0xabc'') None (JNum (Fin 2)),
      Respond 200 (JObj [(''message'', JStr ''Transaction sent''), (''txHash'', JStr ''0xaa'')])]"
    by (simp add: drip send fields send_ok_def sent_def forward_response_def)
  from sendToken_no_gate_admits [OF evm(2) inst(2) params(2) mainnet_off(2) coupon_off(2)]
  have b: "sendToken_route ?srv ?b =
     [SendToken (JStr ''0xabc'') (Some ''USDT'') (JNum (Fin 5)),
      Respond 200 (JObj [(''message'', JStr ''Transaction sent''), (''txHash'', JStr ''0xaa'')])]"
    by (simp add: drip send fields send_ok_def sent_def forward_response_def)
  from a b show ?thesis by blast
qed



lemma str_truthy_iff: "str_truthy c \<longleftrightarrow> (\<exists>s. c = Some s \<and> s \<noteq> [])"
  by (cases c) simp_all


lemma demo_gated_fields:
  "truthy (couponCheckEnabled (demo_server kite_gated check send) (demo_evm kite_gated send) None)"
  "truthy (mainnetCheckEnabled (demo_evm kite_gated send) None)"
  "faucetConfigId (demo_evm kite_gated send) None = JStr ''KITE''"
  "configured_dripAmount (demo_evm kite_gated send) None = JNum (Fin 2)"
  by (simp_all add: couponCheckEnabled_def mainnetCheckEnabled_def faucetConfigId_def
      configured_dripAmount_def resolved_field_def token_field_def js_get_def
      object_prototype_keys_def js_coalesce_def js_and_def demo_evm_def demo_server_def
      kite_gated_def)




lemma mainnet_checks_pipeline:
  assumes "str_truthy (body_couponId b)"
  shows "mainnet_checks (fst (sendToken_pipeline srv b e inst)) = []"
  using assms coupon_stage_events(3)
  by (simp add: sendToken_pipeline_def Let_def mainnet_stage_coupon mainnet_checks_def)

lemma mainnet_checks_dispatch: "mainnet_checks (sendToken_dispatch e b pv) = []"
  by (simp add: sendToken_dispatch_def sendToken_callback_def forward_response_def
      mainnet_checks_def split: send_outcome.splits)

lemma mainnet_checks_route:
  assumes "str_truthy (body_couponId b)"
  shows "mainnet_checks (sendToken_route srv b) = []"
proof (cases "evms_get srv (body_chain b)")
  case None
  then show ?thesis
    by (simp add: sendToken_route_def invalid_parameters_def mainnet_checks_def)
next
  case (Some e)
  show ?thesis
  proof (cases "invalid_parameters (Some e) (body_erc20 b)
                  (contracts_get (Some e) (body_erc20 b))")
    case True
    with Some show ?thesis by (simp add: sendToken_route_def mainnet_checks_def)
  next
    case False
    have "mainnet_checks (fst (sendToken_pipeline srv b e (contracts_get (Some e) (body_erc20 b))))
            = []"
      using assms by (rule mainnet_checks_pipeline)
    then show ?thesis
      using mainnet_checks_dispatch
      unfolding sendToken_route_resolved [OF Some refl False]
      by (simp add: mainnet_checks_def pipeline_rejection_def)
  qed
qed

text \<open>
  Claim C3, as amended. For every \<^verbatim>\<open>/sendToken\<close> request that supplies a non-empty
  coupon, the mainnet balance check is never invoked; when the coupon gate is enabled
  and the coupon check leaves the pipeline invalid, the handler runs the coupon check
  only and answers with the pipeline rejection (status 400).
\<close>

theorem coupon_skips_mainnet_check:
  assumes coupon: "body_couponId b = Some c" and nonempty: "c \<noteq> []"
  shows "mainnet_checks (sendToken_route srv b) = []
         \<and> (\<forall>e inst.
               evms_get srv (body_chain b) = Some e
               \<and> inst = contracts_get (Some e) (body_erc20 b)
               \<and> \<not> invalid_parameters (Some e) (body_erc20 b) inst
               \<and> truthy (couponCheckEnabled srv e inst)
               \<and> \<not> isValid (checkCouponPipeline srv (initial_validity e inst)
                               (faucetConfigId e inst) (Some c))
               \<longrightarrow> sendToken_route srv b =
                     [CheckCoupon (faucetConfigId e inst) (Some c),
                      pipeline_rejection srv e inst
                        (checkCouponPipeline srv (initial_validity e inst)
                           (faucetConfigId e inst) (Some c))])"
proof -
  have supplied: "str_truthy (body_couponId b)"
    using coupon nonempty by simp
  have first: "mainnet_checks (sendToken_route srv b) = []"
    using supplied by (rule mainnet_checks_route)
  have second: "sendToken_route srv b =
                     [CheckCoupon (faucetConfigId e inst) (Some c),
                      pipeline_rejection srv e inst
                        (checkCouponPipeline srv (initial_validity e inst)
                           (faucetConfigId e inst) (Some c))]"
    if evm: "evms_get srv (body_chain b) = Some e"
      and inst: "inst = contracts_get (Some e) (body_erc20 b)"
      and params: "\<not> invalid_parameters (Some e) (body_erc20 b) inst"
      and enabled: "truthy (couponCheckEnabled srv e inst)"
      and invalid: "\<not> isValid (checkCouponPipeline srv (initial_validity e inst)
                               (faucetConfigId e inst) (Some c))"
    for e inst
  proof -
    have pipe: "sendToken_pipeline srv b e inst =
        ([CheckCoupon (faucetConfigId e inst) (Some c)],
         checkCouponPipeline srv (initial_validity e inst) (faucetConfigId e inst) (Some c))"
      using enabled supplied coupon
      by (simp add: sendToken_pipeline_def Let_def coupon_stage_def mainnet_stage_coupon
          initial_validity_def)
    have "pipeline_failed srv e inst
            (checkCouponPipeline srv (initial_validity e inst) (faucetConfigId e inst) (Some c))"
      using enabled invalid by (simp add: pipeline_failed_def)
    then show ?thesis
      unfolding sendToken_route_resolved [OF evm inst params] pipe by simp
  qed
  from first second show ?thesis by blast
qed

theorem coupon_skips_mainnet_check_witness:
  "mainnet_checks (sendToken_route (demo_server kite_gated check_gold send_ok)
                     (demo_body\<lparr>body_couponId := Some ''lead''\<rparr>)) = []
   \<and> sendToken_route (demo_server kite_gated check_gold send_ok)
        (demo_body\<lparr>body_couponId := Some ''lead''\<rparr>) =
     [CheckCoupon (JStr ''KITE'') (Some ''lead''),
      Respond 400 (JObj [(''message'', JStr ''Invalid coupon. Check failed'')])]"
proof -
  let ?srv = "demo_server kite_gated check_gold send_ok"
  let ?e = "demo_evm kite_gated send_ok"
  let ?b = "demo_body\<lparr>body_couponId := Some ''lead''\<rparr>"
  let ?pv = "checkCouponPipeline ?srv (initial_validity ?e None) (faucetConfigId ?e None)
               (Some ''lead'')"
  have coupon: "body_couponId ?b = Some ''lead''" and nonempty: "''lead'' \<noteq> []"
    by (simp_all add: demo_body_def)
  have evm: "evms_get ?srv (body_chain ?b) = Some ?e"
    by (simp add: demo_body_def demo_evms_get)
  have inst: "None = contracts_get (Some ?e) (body_erc20 ?b)"
    by (simp add: demo_body_def demo_contracts_get)
  have params: "\<not> invalid_parameters (Some ?e) (body_erc20 ?b) None"
    by (simp add: invalid_parameters_def demo_body_def)
  have enabled: "truthy (couponCheckEnabled ?srv ?e None)"
    by (rule demo_gated_fields)
  have pv: "?pv = (initial_validity ?e None)\<lparr>errorMessage := Some ''Invalid coupon. ''\<rparr>"
    by (simp add: demo_server_def check_gold_def)
  have invalid: "\<not> isValid ?pv"
    unfolding pv by (simp add: initial_validity_def)
  have rejection: "pipeline_rejection ?srv ?e None ?pv =
      Respond 400 (JObj [(''message'', JStr ''Invalid coupon. Check failed'')])"
    unfolding pv by (simp add: pipeline_rejection_def message_only_def demo_server_def)
  from coupon_skips_mainnet_check [OF coupon nonempty, of ?srv]
    evm inst params enabled invalid
  have "mainnet_checks (sendToken_route ?srv ?b) = []
        \<and> sendToken_route ?srv ?b =
            [CheckCoupon (faucetConfigId ?e None) (Some ''lead''),
             pipeline_rejection ?srv ?e None ?pv]"
    by blast
  then have a: "mainnet_checks (sendToken_route ?srv ?b) = []"
    and b: "sendToken_route ?srv ?b =
            [CheckCoupon (faucetConfigId ?e None) (Some ''lead''),
             pipeline_rejection ?srv ?e None ?pv]"
    by blast+
  from a b rejection show ?thesis
    by (simp add: demo_gated_fields(3))
qed

text \<open>
  Claim C3 as stated fails for the empty string: the request supplies the coupon
  \<^verbatim>\<open>""\<close>, the enabled coupon check finds it invalid, and the handler falls back to the
  mainnet check, which admits the request, because \<^verbatim>\<open>!coupon\<close> holds in line 157.
\<close>

theorem empty_coupon_mainnet_check_counterexample:
  "body_couponId (demo_body\<lparr>body_couponId := Some []\<rparr>) = Some []
   \<and> sendToken_route (demo_server kite_gated check_gold send_ok)
       (demo_body\<lparr>body_couponId := Some []\<rparr>) =
     [CheckCoupon (JStr ''KITE'') (Some []),
      CheckMainnet (JStr ''0xabc''),
      SendToken (JStr ''0xabc'') None (JNum (Fin 2)),
      Respond 200 (JObj [(''message'', JStr ''Transaction sent''), (''txHash'', JStr ''0xaa'')])]"
proof -
  let ?srv = "demo_server kite_gated check_gold send_ok"
  let ?e = "demo_evm kite_gated send_ok"
  let ?b = "demo_body\<lparr>body_couponId := Some []\<rparr>"
  let ?pv = "(initial_validity ?e None)
               \<lparr>errorMessage := Some ''Invalid coupon. '', isValid := True,
                checkPassedType := Some MAINNET_BALANCE\<rparr>"
  have pipe: "sendToken_pipeline ?srv ?b ?e None =
     ([CheckCoupon (JStr ''KITE'') (Some []), CheckMainnet (JStr ''0xabc'')], ?pv)"
    by (simp add: sendToken_pipeline_def coupon_stage_def mainnet_stage_def Let_def
        demo_gated_fields)
       (simp add: demo_server_def check_gold_def check_mainnet_ok_def initial_validity_def
        demo_body_def)
  have evm: "evms_get ?srv (body_chain ?b) = Some ?e"
    by (simp add: demo_body_def demo_evms_get)
  have inst: "None = contracts_get (Some ?e) (body_erc20 ?b)"
    by (simp add: demo_body_def demo_contracts_get)
  have params: "\<not> invalid_parameters (Some ?e) (body_erc20 ?b) None"
    by (simp add: invalid_parameters_def demo_body_def)
  have send: "sendToken (instance ?e) = send_ok"
    by (simp add: demo_evm_def)
  have route: "sendToken_route ?srv ?b =
     [CheckCoupon (JStr ''KITE'') (Some []),
      CheckMainnet (JStr ''0xabc''),
      SendToken (JStr ''0xabc'') None (JNum (Fin 2)),
      Respond 200 (JObj [(''message'', JStr ''Transaction sent''), (''txHash'', JStr ''0xaa'')])]"
    unfolding sendToken_route_resolved [OF evm inst params] pipe
    by (simp add: pipeline_failed_def sendToken_dispatch_def
        sendToken_callback_def forward_response_def initial_validity_def demo_gated_fields
        send send_ok_def sent_def demo_body_def)
  show ?thesis
    by (simp add: route)
qed

section \<open>The startup merge\<close>

lemma populate_key_other:
  "key \<noteq> k \<Longrightarrow> js_get (populate_key p k child) key = js_get child key"
  by (simp add: populate_key_def js_get_def object_prototype_keys_def update_conv')

lemma populate_key_truthy:
  "truthy (js_get child key) \<Longrightarrow> js_get (populate_key p k child) key = js_get child key"
  by (cases "key = k") (simp_all add: populate_key_def js_get_def object_prototype_keys_def update_conv')

lemma populate_key_exempt:
  "key \<in> set separateConfigFields \<Longrightarrow> js_get (populate_key p k child) key = js_get child key"
  by (cases "key = k") (simp_all add: populate_key_def js_get_def object_prototype_keys_def update_conv')

lemma populate_key_copies:
  "key \<notin> set separateConfigFields \<Longrightarrow> \<not> truthy (js_get child key) \<Longrightarrow>
     js_get (populate_key p key child) key = js_get p key"
  by (simp add: populate_key_def js_get_def object_prototype_keys_def update_conv')

lemma fold_populate_untouched:
  "key \<notin> set ks \<Longrightarrow> js_get (fold (populate_key p) ks child) key = js_get child key"
  by (induction ks arbitrary: child) (auto simp: populate_key_other)

lemma fold_populate_truthy:
  "truthy (js_get child key) \<Longrightarrow> js_get (fold (populate_key p) ks child) key = js_get child key"
  by (induction ks arbitrary: child) (simp_all add: populate_key_truthy)

lemma fold_populate_exempt:
  "key \<in> set separateConfigFields \<Longrightarrow>
     js_get (fold (populate_key p) ks child) key = js_get child key"
  by (induction ks arbitrary: child) (simp_all add: populate_key_exempt)

lemma fold_populate_copies:
  "key \<in> set ks \<Longrightarrow> key \<notin> set separateConfigFields \<Longrightarrow> \<not> truthy (js_get child key) \<Longrightarrow>
     js_get (fold (populate_key p) ks child) key = js_get p key"
proof (induction ks arbitrary: child)
  case Nil
  then show ?case by simp
next
  case (Cons k ks)
  show ?case
  proof (cases "k = key")
    case True
    have step: "js_get (populate_key p key child) key = js_get p key"
      using Cons.prems by (simp add: populate_key_copies)
    show ?thesis
    proof (cases "truthy (js_get p key)")
      case True
      with step \<open>k = key\<close> show ?thesis by (simp add: fold_populate_truthy)
    next
      case False
      show ?thesis
      proof (cases "key \<in> set ks")
        case True
        with False step Cons.prems(2) \<open>k = key\<close> show ?thesis
          by (simp add: Cons.IH)
      next
        case False
        with step \<open>k = key\<close> show ?thesis by (simp add: fold_populate_untouched)
      qed
    qed
  next
    case False
    with Cons.prems have "key \<in> set ks" by simp
    moreover have "js_get (populate_key p k child) key = js_get child key"
      using False by (simp add: populate_key_other)
    ultimately show ?thesis using Cons.prems by (simp add: Cons.IH)
  qed
qed

lemma populateConfig_inherits:
  "map_of p key = Some v \<Longrightarrow> key \<notin> set separateConfigFields \<Longrightarrow>
   \<not> truthy (js_get child key) \<Longrightarrow> js_get (populateConfig child (Some p)) key = v"
proof -
  assume present: "map_of p key = Some v" and rest: "key \<notin> set separateConfigFields"
    "\<not> truthy (js_get child key)"
  from present have "key \<in> set (map fst p)"
    by (metis map_of_eq_None_iff option.distinct(1) set_map)
  with rest have "js_get (fold (populate_key p) (map fst p) child) key = js_get p key"
    by (simp add: fold_populate_copies)
  with present show ?thesis by (simp add: populateConfig_def js_get_def object_prototype_keys_def)
qed

lemma populateConfig_keeps_truthy:
  "truthy (js_get child key) \<Longrightarrow> js_get (populateConfig child parent) key = js_get child key"
  by (cases parent) (simp_all add: populateConfig_def fold_populate_truthy)

lemma populateConfig_exempt:
  "key \<in> set separateConfigFields \<Longrightarrow>
     js_get (populateConfig child parent) key = js_get child key"
  by (cases parent) (simp_all add: populateConfig_def fold_populate_exempt)

lemma populateConfig_not_on_host:
  "map_of p key = None \<Longrightarrow> js_get (populateConfig child (Some p)) key = js_get child key"
  by (simp add: populateConfig_def fold_populate_untouched map_of_eq_None_iff)

lemma getChainByID_fold:
  "fold (\<lambda>c reply. if js_get c ''ID'' = JStr h then Some c else reply) cs r = Some host \<Longrightarrow>
     r = Some host \<or> (host \<in> set cs \<and> js_get host ''ID'' = JStr h)"
  by (induction cs arbitrary: r) (auto split: if_splits)

lemma getChainByID_Some:
  "getChainByID evmchains h = Some host \<Longrightarrow> host \<in> set evmchains \<and> js_get host ''ID'' = JStr h"
  using getChainByID_fold [of h evmchains None host] by (simp add: getChainByID_def)

lemma merge_token_resolved:
  "js_get token ''HOSTID'' = JStr h \<Longrightarrow> h \<noteq> [] \<Longrightarrow>
     merge_token evmchains token = populateConfig token (getChainByID evmchains h)"
  by (simp add: merge_token_def)

text \<open>What the merge does for a token whose \<^verbatim>\<open>HOSTID\<close> resolves: a host field that is
  not exempt and reads falsy on the token gets the host's value, a field that reads
  truthy on the token is kept, and the exempt fields are never copied.\<close>

lemma merge_token_inheritance:
  assumes hostid: "js_get token ''HOSTID'' = JStr h" and nonempty: "h \<noteq> []"
      and host: "getChainByID evmchains h = Some host"
  shows "(\<forall>key v. map_of host key = Some v \<and> key \<notin> set separateConfigFields
                   \<and> \<not> truthy (js_get token key) \<longrightarrow>
                 js_get (merge_token evmchains token) key = v)
         \<and> (\<forall>key. truthy (js_get token key) \<longrightarrow>
                 js_get (merge_token evmchains token) key = js_get token key)
         \<and> (\<forall>key. key \<in> set separateConfigFields \<longrightarrow>
                 js_get (merge_token evmchains token) key = js_get token key)"
proof -
  have merged: "merge_token evmchains token = populateConfig token (Some host)"
    using merge_token_resolved [OF hostid nonempty] host by simp
  show ?thesis
    unfolding merged
    using populateConfig_inherits populateConfig_keeps_truthy populateConfig_exempt
    by blast
qed

lemma merge_token_inheritance_example:
  "js_get (merge_token [kite_gated] usdt_token) ''DECIMALS'' = JNum (Fin 18)
   \<and> js_get (merge_token [kite_gated] usdt_token) ''DRIP_AMOUNT'' = JNum (Fin 5)
   \<and> js_get (merge_token [kite_gated] usdt_token) ''COUPON_REQUIRED'' = JUndefined"
proof -
  have hostid: "js_get usdt_token ''HOSTID'' = JStr ''KITE''" and nonempty: "''KITE'' \<noteq> []"
    by (simp_all add: js_get_def object_prototype_keys_def usdt_token_def)
  have host: "getChainByID [kite_gated] ''KITE'' = Some kite_gated"
    by (simp add: getChainByID_def js_get_def object_prototype_keys_def kite_gated_def)
  have decimals: "map_of kite_gated ''DECIMALS'' = Some (JNum (Fin 18))
      \<and> ''DECIMALS'' \<notin> set separateConfigFields
      \<and> \<not> truthy (js_get usdt_token ''DECIMALS'')"
    by (simp add: kite_gated_def separateConfigFields_def js_get_def object_prototype_keys_def usdt_token_def)
  have drip: "truthy (js_get usdt_token ''DRIP_AMOUNT'')"
    by (simp add: js_get_def object_prototype_keys_def usdt_token_def)
  have exempt: "''COUPON_REQUIRED'' \<in> set separateConfigFields"
    by (simp add: separateConfigFields_def)
  have own: "js_get usdt_token ''DRIP_AMOUNT'' = JNum (Fin 5)"
    "js_get usdt_token ''COUPON_REQUIRED'' = JUndefined"
    by (simp_all add: js_get_def object_prototype_keys_def usdt_token_def)
  from merge_token_inheritance [OF hostid nonempty host] decimals drip exempt
  have "js_get (merge_token [kite_gated] usdt_token) ''DECIMALS'' = JNum (Fin 18)
   \<and> js_get (merge_token [kite_gated] usdt_token) ''DRIP_AMOUNT'' = js_get usdt_token ''DRIP_AMOUNT''
   \<and> js_get (merge_token [kite_gated] usdt_token) ''COUPON_REQUIRED''
       = js_get usdt_token ''COUPON_REQUIRED''"
    by blast
  then show ?thesis by (simp add: own)
qed

text \<open>
  Claim C5. The comment of line 87 says that \<^verbatim>\<open>populateConfig\<close> populates the missing
  keys of the child, and the claim that a field the token has set itself, also to 0,
  false or the empty string, is left unchanged. The code tests \<^verbatim>\<open>!child[key]\<close> instead
  of the key's absence: for a token that sets \<^verbatim>\<open>DECIMALS\<close> to 0 on a host chain with
  \<^verbatim>\<open>DECIMALS\<close> 18, the merge of the startup loop overwrites the token's 0 with 18.
\<close>

theorem merge_token_overwrites_zero:
  "getChainByID [kite_open] ''KITE'' = Some kite_open
   \<and> js_get zero_decimals_token ''HOSTID'' = JStr ''KITE''
   \<and> map_of zero_decimals_token ''DECIMALS'' = Some (JNum (Fin 0))
   \<and> map_of kite_open ''DECIMALS'' = Some (JNum (Fin 18))
   \<and> merge_token [kite_open] zero_decimals_token =
       [(''ID'', JStr ''ZDT''), (''HOSTID'', JStr ''KITE''), (''DECIMALS'', JNum (Fin 18)),
        (''DRIP_AMOUNT'', JNum (Fin 2))]"
  by (simp add: getChainByID_def merge_token_def populateConfig_def populate_key_def
      separateConfigFields_def js_get_def object_prototype_keys_def kite_open_def
      zero_decimals_token_def)

text \<open>A key that the token inherits from \<^verbatim>\<open>Object.prototype\<close> reads truthy on it, so the
  host's field of that name is not copied.\<close>

lemma populateConfig_inherited_name:
  "map_of child key = None \<Longrightarrow> key \<in> set object_prototype_keys \<Longrightarrow>
     js_get (populateConfig child parent) key = JNative key"
proof -
  assume own: "map_of child key = None" and proto: "key \<in> set object_prototype_keys"
  then have read: "js_get child key = JNative key"
    by (simp add: js_get_def)
  then have "truthy (js_get child key)" by simp
  then have "js_get (populateConfig child parent) key = js_get child key"
    by (rule populateConfig_keeps_truthy)
  with read show ?thesis by simp
qed

text \<open>A merged token carries a \<^verbatim>\<open>DRIP_AMOUNT\<close> whenever its host does, so the amount
  of a resolved token is the token's own.\<close>

lemma merge_token_drip_defined:
  assumes "js_get token ''HOSTID'' = JStr h" "h \<noteq> []" "getChainByID evmchains h = Some host"
      and "map_of host ''DRIP_AMOUNT'' = Some v" "\<not> nullish v"
  shows "\<not> nullish (js_get (merge_token evmchains token) ''DRIP_AMOUNT'')"
proof (cases "truthy (js_get token ''DRIP_AMOUNT'')")
  case True
  then have "js_get (merge_token evmchains token) ''DRIP_AMOUNT'' = js_get token ''DRIP_AMOUNT''"
    using merge_token_resolved [OF assms(1,2)] by (simp add: populateConfig_keeps_truthy)
  with True show ?thesis by (cases "js_get token ''DRIP_AMOUNT''") auto
next
  case False
  have "''DRIP_AMOUNT'' \<notin> set separateConfigFields"
    by (simp add: separateConfigFields_def)
  with False assms have "js_get (merge_token evmchains token) ''DRIP_AMOUNT'' = v"
    using merge_token_resolved [OF assms(1,2)] by (simp add: populateConfig_inherits)
  with assms(5) show ?thesis by simp
qed

end
